theory Spec2Isabelle
  imports Main "HOL-Library.Finite_Map"
begin

section \<open>Constants of the charm\<close>

definition AUSF_GROUP_ID :: string where "AUSF_GROUP_ID = ''ausfGroup001''"
definition SBI_PORT :: int where "SBI_PORT = 29509"
definition CONFIG_DIR :: string where "CONFIG_DIR = ''/free5gc/config''"
definition CONFIG_FILE_NAME :: string where "CONFIG_FILE_NAME = ''ausfcfg.conf''"
definition CONFIG_TEMPLATE_DIR :: string where "CONFIG_TEMPLATE_DIR = ''src/templates/''"
definition CONFIG_TEMPLATE_NAME :: string where "CONFIG_TEMPLATE_NAME = ''ausfcfg.conf.j2''"
definition CERTS_DIR_PATH :: string where "CERTS_DIR_PATH = ''/support/TLS''"
definition PRIVATE_KEY_NAME :: string where "PRIVATE_KEY_NAME = ''ausf.key''"
definition CSR_NAME :: string where "CSR_NAME = ''ausf.csr''"
definition CERTIFICATE_NAME :: string where "CERTIFICATE_NAME = ''ausf.pem''"
definition CERTIFICATE_COMMON_NAME :: string where "CERTIFICATE_COMMON_NAME = ''ausf.sdcore''"

text \<open>\<open>self._container_name = self._service_name = "ausf"\<close> in \<open>__init__\<close>.\<close>

definition container_name :: string where "container_name = ''ausf''"
definition service_name :: string where "service_name = ''ausf''"

text \<open>The four paths the charm builds with f-strings.\<close>

definition private_key_path :: string where
  "private_key_path = CERTS_DIR_PATH @ ''/'' @ PRIVATE_KEY_NAME"
definition csr_path :: string where
  "csr_path = CERTS_DIR_PATH @ ''/'' @ CSR_NAME"
definition certificate_path :: string where
  "certificate_path = CERTS_DIR_PATH @ ''/'' @ CERTIFICATE_NAME"
definition config_file_path :: string where
  "config_file_path = CONFIG_DIR @ ''/'' @ CONFIG_FILE_NAME"

section \<open>Data\<close>

text \<open>
  Python \<open>str\<close> and \<open>bytes\<close> values are both lists of \<open>char\<close>. The conversions
  between them (\<open>bytes.decode\<close>, \<open>str.encode\<close>) are parameters of the model, see
  \<open>env\<close> below, so that nothing is assumed about the codec.
\<close>

datatype error = PathError | AddressValueError | UnicodeDecodeError | CalledProcessError

datatype status = ActiveStatus | BlockedStatus string | WaitingStatus string

datatype level = Debug | Info | Warning

text \<open>A node of the workload container's file system.\<close>

datatype node = File string | Directory

text \<open>
  A Pebble service as the charm writes it in \<open>_pebble_layer\<close>. Python
  dictionaries are finite maps, compared by their entries. The value of \<open>POD_IP\<close> in
  the environment is an \<open>Optional[str]\<close>, hence the option.
\<close>

record service =
  override :: string
  startup :: string
  command :: string
  environment :: "(string, string option) fmap"

type_synonym services = "(string, service) fmap"

text \<open>
  Every call the charm makes on a collaborator (the container, the Juju model, the
  hook tools, the NRF and certificates libraries, the logger), in the order made.
\<close>

datatype action =
    Can_connect
  | Exists string
  | Pull string
  | Push string string bool
  | Remove_path string
  | Get_plan
  | Add_layer string services bool
  | Restart string
  | Get_relation string
  | Nrf_url
  | Unit_get
  | Request_certificate_creation string
  | Set_status status
  | Defer
  | Log level string

text \<open>
  What the charm observes and changes during one hook: the container (reachability,
  file system, Pebble plan), the Juju model (relations, unit status), the URL published by
  the NRF library, the output of \<open>unit-get private-address\<close> (\<open>None\<close> when the tool
  exits with an error), and the trace of calls made so far.
\<close>

record world =
  can_connect :: bool
  fs :: "string \<rightharpoonup> node"
  plan_services :: services
  relations :: "string \<rightharpoonup> nat"
  nrf_requires_nrf_url :: "string option"
  unit_get_private_address :: "string option"
  unit_status :: status
  trace :: "action list"

text \<open>The keyword arguments that \<open>_render_config_file\<close> hands to the template.\<close>

record bindings =
  ausf_group_id :: string
  ausf_ip :: "string option"
  nrf_url :: "string option"
  sbi_port :: int
  scheme :: string

text \<open>
  Library functions the charm calls and that are not part of it, taken as parameters:
  \<^item> \<open>decode\<close>: \<open>bytes.decode()\<close>, \<open>None\<close> when it raises \<open>UnicodeDecodeError\<close>;
  \<^item> \<open>encode\<close>: \<open>str.encode()\<close>;
  \<^item> \<open>str_IPv4Address\<close>: \<open>str(IPv4Address(s))\<close>, \<open>None\<close> when the address is refused;
  \<^item> \<open>render_template\<close>: the Jinja environment of a directory, the template of a name,
    rendered with the bindings;
  \<^item> \<open>tls_generate_private_key\<close>: the key that \<open>generate_private_key()\<close> returns in
    this hook;
  \<^item> \<open>tls_generate_csr\<close>: \<open>generate_csr(private_key, subject, sans_dns)\<close>.
\<close>

record env =
  decode :: "string \<Rightarrow> string option"
  encode :: "string \<Rightarrow> string"
  str_IPv4Address :: "string \<Rightarrow> string option"
  render_template :: "string \<Rightarrow> string \<Rightarrow> bindings \<Rightarrow> string"
  tls_generate_private_key :: string
  tls_generate_csr :: "string \<Rightarrow> string \<Rightarrow> string list \<Rightarrow> string"

text \<open>The events carry more fields; these are the ones the handlers read.\<close>

datatype certificate_available_event =
  CertificateAvailableEvent (certificate: string) (certificate_signing_request: string)

datatype certificate_expiring_event =
  CertificateExpiringEvent (expiring_certificate: string)

section \<open>Python built-ins\<close>

text \<open>\<open>str.isspace\<close> on the code points below 256.\<close>

definition isspace :: "char \<Rightarrow> bool" where
  "isspace c = ((of_char c :: nat) \<in> {9, 10, 11, 12, 13, 28, 29, 30, 31, 32, 133, 160})"

text \<open>\<open>str.strip()\<close>: leading, then trailing whitespace removed.\<close>

definition strip :: "string \<Rightarrow> string" where
  "strip s = rev (dropWhile isspace (rev (dropWhile isspace s)))"

text \<open>\<open>bool(x)\<close> of an \<open>Optional[str]\<close>: \<open>None\<close> and the empty string are false.\<close>

definition truthy :: "string option \<Rightarrow> bool" where
  "truthy x = (case x of None \<Rightarrow> False | Some s \<Rightarrow> s \<noteq> [])"

section \<open>Computations: state, exceptions, trace\<close>

text \<open>
  A method of the charm is a function from the world to an outcome (an exception or a
  value) and the world it leaves, which keeps what was done before an exception.
\<close>

type_synonym 'a charm = "world \<Rightarrow> (error + 'a) \<times> world"

definition return :: "'a \<Rightarrow> 'a charm" where
  "return a = (\<lambda>w. (Inr a, w))"

definition raise :: "error \<Rightarrow> 'a charm" where
  "raise e = (\<lambda>w. (Inl e, w))"

definition bind :: "'a charm \<Rightarrow> ('a \<Rightarrow> 'b charm) \<Rightarrow> 'b charm" where
  "bind m f = (\<lambda>w. case m w of (Inl e, w') \<Rightarrow> (Inl e, w') | (Inr a, w') \<Rightarrow> f a w')"

definition seq :: "unit charm \<Rightarrow> 'b charm \<Rightarrow> 'b charm" where
  "seq m n = bind m (\<lambda>_. n)"

definition gets :: "(world \<Rightarrow> 'a) \<Rightarrow> 'a charm" where
  "gets f = (\<lambda>w. (Inr (f w), w))"

definition modify :: "(world \<Rightarrow> world) \<Rightarrow> unit charm" where
  "modify f = (\<lambda>w. (Inr (), f w))"

definition emit :: "action \<Rightarrow> unit charm" where
  "emit a = modify (\<lambda>w. w\<lparr>trace := trace w @ [a]\<rparr>)"

section \<open>Collaborators\<close>

subsection \<open>The container store\<close>

text \<open>
  The workload container is reached through \<open>ops.model.Container\<close>, which is not part of
  the charm. Its file operations are modelled after the interface the specification gives
  for the container store: \<open>exists(path)\<close>, \<open>read(path)\<close> that fails when the file is
  absent, \<open>write(path, bytes, createDirs)\<close> and \<open>delete(path)\<close>.
\<close>

definition container_can_connect :: "bool charm" where
  "container_can_connect = seq (emit Can_connect) (gets can_connect)"

definition container_exists :: "string \<Rightarrow> bool charm" where
  "container_exists path = seq (emit (Exists path)) (gets (\<lambda>w. fs w path \<noteq> None))"

definition container_pull :: "string \<Rightarrow> string charm" where
  "container_pull path =
     seq (emit (Pull path))
       (bind (gets (\<lambda>w. fs w path))
          (\<lambda>n. case n of Some (File c) \<Rightarrow> return c | _ \<Rightarrow> raise PathError))"

text \<open>The directories above a path: its proper prefixes that end before a \<open>/\<close>.\<close>

definition ancestors :: "string \<Rightarrow> string list" where
  "ancestors path = [take i path. i \<leftarrow> [1..<length path], path ! i = CHR ''/'']"

definition write_file :: "(string \<rightharpoonup> node) \<Rightarrow> string \<Rightarrow> string \<Rightarrow> bool \<Rightarrow> (string \<rightharpoonup> node)" where
  "write_file f path source make_dirs =
     (\<lambda>p. if p = path then Some (File source)
          else if make_dirs \<and> p \<in> set (ancestors path) \<and> f p = None then Some Directory
          else f p)"

definition container_push :: "string \<Rightarrow> string \<Rightarrow> bool \<Rightarrow> unit charm" where
  "container_push path source make_dirs =
     seq (emit (Push path source make_dirs))
       (modify (\<lambda>w. w\<lparr>fs := write_file (fs w) path source make_dirs\<rparr>))"

definition container_remove_path :: "string \<Rightarrow> unit charm" where
  "container_remove_path path =
     seq (emit (Remove_path path)) (modify (\<lambda>w. w\<lparr>fs := (fs w)(path := None)\<rparr>))"

subsection \<open>The process supervisor\<close>

text \<open>
  Pebble, modelled after the specification's process supervisor: the current plan's
  services, a merge that adds the layer's services to the plan and replaces those of the
  same name, and a restart, which is visible in the trace only.
\<close>

definition container_get_plan :: "services charm" where
  "container_get_plan = seq (emit Get_plan) (gets plan_services)"

definition container_add_layer :: "string \<Rightarrow> services \<Rightarrow> bool \<Rightarrow> unit charm" where
  "container_add_layer label layer combine =
     seq (emit (Add_layer label layer combine))
       (modify (\<lambda>w. w\<lparr>plan_services := plan_services w ++\<^sub>f layer\<rparr>))"

definition container_restart :: "string \<Rightarrow> unit charm" where
  "container_restart name = emit (Restart name)"

subsection \<open>Juju, the libraries and the logger\<close>

definition model_get_relation :: "string \<Rightarrow> nat option charm" where
  "model_get_relation name = seq (emit (Get_relation name)) (gets (\<lambda>w. relations w name))"

definition set_unit_status :: "status \<Rightarrow> unit charm" where
  "set_unit_status s = seq (emit (Set_status s)) (modify (\<lambda>w. w\<lparr>unit_status := s\<rparr>))"

definition event_defer :: "unit charm" where
  "event_defer = emit Defer"

definition logger :: "level \<Rightarrow> string \<Rightarrow> unit charm" where
  "logger l msg = emit (Log l msg)"

definition nrf_requires_url :: "string option charm" where
  "nrf_requires_url = seq (emit Nrf_url) (gets nrf_requires_nrf_url)"

definition check_output_unit_get :: "string charm" where
  "check_output_unit_get =
     seq (emit Unit_get)
       (bind (gets unit_get_private_address)
          (\<lambda>out. case out of None \<Rightarrow> raise CalledProcessError | Some b \<Rightarrow> return b))"

definition certificates_request_certificate_creation :: "string \<Rightarrow> unit charm" where
  "certificates_request_certificate_creation csr = emit (Request_certificate_creation csr)"

section \<open>The charm\<close>

text \<open>
  The methods of \<open>AUSFOperatorCharm\<close>, in the order of their calls. A handler runs on
  a charm that \<open>__init__\<close> has built, hence on the leader unit; its event argument is
  kept only where a field of it is read, and \<open>event.defer()\<close> is the call \<open>Defer\<close>.
\<close>

definition get_pod_ip :: "env \<Rightarrow> string option charm" where
  "get_pod_ip env =
     bind check_output_unit_get (\<lambda>ip_address.
       if ip_address \<noteq> [] then
         (case decode env ip_address of
            None \<Rightarrow> raise UnicodeDecodeError
          | Some s \<Rightarrow>
              (case str_IPv4Address env (strip s) of
                 None \<Rightarrow> raise AddressValueError
               | Some a \<Rightarrow> return (Some a)))
       else return None)"

definition relation_created :: "string \<Rightarrow> bool charm" where
  "relation_created relation_name =
     bind (model_get_relation relation_name) (\<lambda>r. return (r \<noteq> None))"

definition nrf_data_is_available :: "bool charm" where
  "nrf_data_is_available = bind nrf_requires_url (\<lambda>u. return (truthy u))"

definition private_key_is_stored :: "bool charm" where
  "private_key_is_stored = container_exists private_key_path"

definition csr_is_stored :: "bool charm" where
  "csr_is_stored = container_exists csr_path"

definition certificate_is_stored :: "bool charm" where
  "certificate_is_stored = container_exists certificate_path"

definition get_stored_certificate :: "string charm" where
  "get_stored_certificate = container_pull certificate_path"

definition get_stored_csr :: "string charm" where
  "get_stored_csr = container_pull csr_path"

definition get_stored_private_key :: "env \<Rightarrow> string charm" where
  "get_stored_private_key env =
     bind (container_pull private_key_path) (\<lambda>s. return (encode env s))"

definition store_certificate :: "string \<Rightarrow> unit charm" where
  "store_certificate cert =
     seq (container_push certificate_path cert False)
       (logger Info ''Pushed certificate pushed to workload'')"


definition store_csr :: "env \<Rightarrow> string \<Rightarrow> unit charm" where
  "store_csr env csr =
     (case decode env csr of
        None \<Rightarrow> raise UnicodeDecodeError
      | Some s \<Rightarrow>
          seq (container_push csr_path (strip s) False)
            (logger Info ''Pushed CSR to workload''))"

definition delete_private_key :: "unit charm" where
  "delete_private_key =
     bind private_key_is_stored (\<lambda>stored.
       if \<not> stored then return ()
       else seq (container_remove_path private_key_path)
              (logger Info ''Removed private key from workload''))"

definition delete_csr :: "unit charm" where
  "delete_csr =
     bind csr_is_stored (\<lambda>stored.
       if \<not> stored then return ()
       else seq (container_remove_path csr_path)
              (logger Info ''Removed CSR from workload''))"

definition delete_certificate :: "unit charm" where
  "delete_certificate =
     bind certificate_is_stored (\<lambda>stored.
       if \<not> stored then return ()
       else seq (container_remove_path certificate_path)
              (logger Info ''Removed certificate from workload''))"


definition request_new_certificate :: "env \<Rightarrow> unit charm" where
  "request_new_certificate env =
     bind (get_stored_private_key env) (\<lambda>private_key.
       let csr = tls_generate_csr env private_key CERTIFICATE_COMMON_NAME
                   [CERTIFICATE_COMMON_NAME]
       in seq (store_csr env csr) (certificates_request_certificate_creation csr))"

definition render_config_file ::
  "env \<Rightarrow> string \<Rightarrow> string option \<Rightarrow> int \<Rightarrow> string option \<Rightarrow> string \<Rightarrow> string" where
  "render_config_file env group_id ip port url sch =
     render_template env CONFIG_TEMPLATE_DIR CONFIG_TEMPLATE_NAME
       \<lparr>ausf_group_id = group_id, ausf_ip = ip, nrf_url = url, sbi_port = port,
        scheme = sch\<rparr>"

text \<open>\<open>try: ... except PathError: return False\<close>: only that exception is caught.\<close>

definition config_file_content_matches :: "string \<Rightarrow> bool charm" where
  "config_file_content_matches content =
     (\<lambda>w. case container_pull config_file_path w of
             (Inl PathError, w') \<Rightarrow> (Inr False, w')
           | (Inl e, w') \<Rightarrow> (Inl e, w')
           | (Inr existing_content, w') \<Rightarrow> (Inr (existing_content = content), w'))"

definition push_config_file :: "string \<Rightarrow> unit charm" where
  "push_config_file content =
     seq (container_push config_file_path content True)
       (logger Info (''Pushed '' @ CONFIG_FILE_NAME @ '' config file''))"

definition apply_ausf_config :: "env \<Rightarrow> bool charm" where
  "apply_ausf_config env =
     bind (get_pod_ip env) (\<lambda>ip.
     bind nrf_requires_url (\<lambda>url.
     bind certificate_is_stored (\<lambda>stored.
       let content = render_config_file env AUSF_GROUP_ID ip SBI_PORT url
                       (if stored then ''https'' else ''http'')
       in bind (config_file_content_matches content) (\<lambda>matches.
            if \<not> matches then seq (push_config_file content) (return True)
            else return False))))"

definition ausf_environment_variables :: "env \<Rightarrow> (string, string option) fmap charm" where
  "ausf_environment_variables env =
     bind (get_pod_ip env) (\<lambda>ip. return (fmap_of_list
       [(''GOTRACEBACK'', Some ''crash''),
        (''GRPC_GO_LOG_VERBOSITY_LEVEL'', Some ''99''),
        (''GRPC_GO_LOG_SEVERITY_LEVEL'', Some ''info''),
        (''GRPC_TRACE'', Some ''all''),
        (''GRPC_VERBOSITY'', Some ''DEBUG''),
        (''POD_IP'', ip),
        (''MANAGED_BY_CONFIG_POD'', Some ''true'')]))"

definition pebble_layer :: "env \<Rightarrow> services charm" where
  "pebble_layer env =
     bind (ausf_environment_variables env) (\<lambda>vars. return (fmap_of_list
       [(service_name,
         \<lparr>override = ''replace'', startup = ''enabled'',
          command = ''/bin/ausf --ausfcfg '' @ config_file_path,
          environment = vars\<rparr>)]))"

definition configure_ausf_service :: "env \<Rightarrow> bool \<Rightarrow> unit charm" where
  "configure_ausf_service env force_restart =
     bind (pebble_layer env) (\<lambda>layer.
     bind container_get_plan (\<lambda>plan.
       if plan \<noteq> layer \<or> force_restart then
         seq (container_add_layer container_name layer True)
           (seq (container_restart service_name)
              (logger Info (''Restarted container '' @ service_name)))
       else return ()))"

definition configure_ausf :: "env \<Rightarrow> unit charm" where
  "configure_ausf env =
     bind container_can_connect (\<lambda>connected.
     if \<not> connected then
       seq (set_unit_status (WaitingStatus ''Waiting for container to start'')) event_defer
     else bind (relation_created ''fiveg_nrf'') (\<lambda>created.
     if \<not> created then
       set_unit_status (BlockedStatus ''Waiting for fiveg_nrf relation'')
     else bind nrf_data_is_available (\<lambda>available.
     if \<not> available then
       seq (set_unit_status (WaitingStatus ''Waiting for NRF data to be available''))
         event_defer
     else bind (container_exists CONFIG_DIR) (\<lambda>attached.
     if \<not> attached then
       seq (set_unit_status (WaitingStatus ''Waiting for storage to be attached''))
         event_defer
     else bind (get_pod_ip env) (\<lambda>pod_ip.
     if \<not> truthy pod_ip then
       seq (set_unit_status (WaitingStatus ''Waiting for pod IP address to be available''))
         event_defer
     else bind (apply_ausf_config env) (\<lambda>config_file_changed.
       seq (configure_ausf_service env config_file_changed)
         (set_unit_status ActiveStatus)))))))"


definition on_certificates_relation_broken :: "env \<Rightarrow> unit charm" where
  "on_certificates_relation_broken env =
     bind container_can_connect (\<lambda>connected.
       if \<not> connected then event_defer
       else seq delete_private_key
              (seq delete_csr
                 (seq delete_certificate (configure_ausf env))))"

definition on_certificates_relation_joined :: "env \<Rightarrow> unit charm" where
  "on_certificates_relation_joined env =
     bind container_can_connect (\<lambda>connected.
       if \<not> connected then event_defer
       else bind private_key_is_stored (\<lambda>stored.
         if \<not> stored then event_defer
         else request_new_certificate env))"

definition on_certificate_available :: "env \<Rightarrow> certificate_available_event \<Rightarrow> unit charm" where
  "on_certificate_available env event =
     bind container_can_connect (\<lambda>connected.
       if \<not> connected then event_defer
       else bind csr_is_stored (\<lambda>stored.
         if \<not> stored then
           logger Warning ''Certificate is available but no CSR is stored''
         else bind get_stored_csr (\<lambda>stored_csr.
           if certificate_signing_request event \<noteq> stored_csr then
             logger Debug ''Stored CSR doesn't match one in certificate available event''
           else seq (store_certificate (certificate event)) (configure_ausf env))))"

definition on_certificate_expiring :: "env \<Rightarrow> certificate_expiring_event \<Rightarrow> unit charm" where
  "on_certificate_expiring env event =
     bind container_can_connect (\<lambda>connected.
       if \<not> connected then event_defer
       else bind get_stored_certificate (\<lambda>stored_certificate.
         if expiring_certificate event \<noteq> stored_certificate then
           logger Debug ''Expiring certificate is not the one stored''
         else request_new_certificate env))"

section \<open>Observing a hook\<close>

text \<open>The calls made between two worlds of one run.\<close>

definition actions_since :: "world \<Rightarrow> world \<Rightarrow> action list" where
  "actions_since w w' = drop (length (trace w)) (trace w')"

text \<open>The calls that only read.\<close>

fun is_query :: "action \<Rightarrow> bool" where
  "is_query Can_connect = True"
| "is_query (Exists _) = True"
| "is_query (Pull _) = True"
| "is_query Get_plan = True"
| "is_query (Get_relation _) = True"
| "is_query Nrf_url = True"
| "is_query Unit_get = True"
| "is_query _ = False"

text \<open>
  The calls that change the workload or reach the certificate authority: file writes and
  removals, layer changes, restarts, certificate requests.
\<close>

fun is_write :: "action \<Rightarrow> bool" where
  "is_write (Push _ _ _) = True"
| "is_write (Remove_path _) = True"
| "is_write (Add_layer _ _ _) = True"
| "is_write (Restart _) = True"
| "is_write (Request_certificate_creation _) = True"
| "is_write _ = False"

section \<open>Concrete inputs\<close>

text \<open>
  A small instance of the library functions: an identity codec, an address parser that
  accepts one address, a template that prints the scheme, the address and the NRF URL.
\<close>

definition env0 :: env where
  "env0 = \<lparr>decode = Some, encode = (\<lambda>s. s),
     str_IPv4Address = (\<lambda>s. if s = ''10.0.0.5'' then Some s else None),
     render_template = (\<lambda>dir name b.
        scheme b @ '' '' @ (case ausf_ip b of None \<Rightarrow> ''None'' | Some a \<Rightarrow> a) @ '' '' @
        (case nrf_url b of None \<Rightarrow> ''None'' | Some u \<Rightarrow> u)),
     tls_generate_private_key = ''KEY'',
     tls_generate_csr = (\<lambda>private_key subject sans. ''CSR '' @ subject @ [CHR 0x0A])\<rparr>"

text \<open>The service specification computed for the address \<open>10.0.0.5\<close>.\<close>

definition layer0 :: services where
  "layer0 = fmap_of_list
     [(service_name,
       \<lparr>override = ''replace'', startup = ''enabled'',
        command = ''/bin/ausf --ausfcfg '' @ config_file_path,
        environment = fmap_of_list
          [(''GOTRACEBACK'', Some ''crash''),
           (''GRPC_GO_LOG_VERBOSITY_LEVEL'', Some ''99''),
           (''GRPC_GO_LOG_SEVERITY_LEVEL'', Some ''info''),
           (''GRPC_TRACE'', Some ''all''),
           (''GRPC_VERBOSITY'', Some ''DEBUG''),
           (''POD_IP'', Some ''10.0.0.5''),
           (''MANAGED_BY_CONFIG_POD'', Some ''true'')]\<rparr>)]"

text \<open>
  A fresh unit whose preconditions all hold: container reachable, NRF relation and URL
  present, storage attached, address printed by the hook tool; no file written yet and an
  empty plan.
\<close>

definition w_fresh :: world where
  "w_fresh = \<lparr>can_connect = True, fs = [CONFIG_DIR \<mapsto> Directory],
     plan_services = fmempty, relations = [''fiveg_nrf'' \<mapsto> 1],
     nrf_requires_nrf_url = Some ''http://nrf:29510'',
     unit_get_private_address = Some (''10.0.0.5'' @ [CHR 0x0A]),
     unit_status = WaitingStatus ''installing'', trace = []\<rparr>"

text \<open>The same unit after a pass: configuration written, plan holding the service.\<close>

definition w_steady :: world where
  "w_steady = w_fresh\<lparr>fs := [CONFIG_DIR \<mapsto> Directory,
       config_file_path \<mapsto> File ''http 10.0.0.5 http://nrf:29510''],
     plan_services := layer0\<rparr>"

text \<open>The fresh unit with the container unreachable and the NRF relation missing.\<close>

definition w_down :: world where
  "w_down = w_fresh\<lparr>can_connect := False, relations := Map.empty\<rparr>"

text \<open>The fresh unit with a private key already stored.\<close>

definition w_keyed :: world where
  "w_keyed = w_fresh\<lparr>fs := [CONFIG_DIR \<mapsto> Directory, CERTS_DIR_PATH \<mapsto> Directory,
       private_key_path \<mapsto> File ''OLD KEY'']\<rparr>"

text \<open>The fresh unit with one precondition failing: relation, NRF data, storage, address.\<close>

definition w_no_relation :: world where
  "w_no_relation = w_fresh\<lparr>relations := Map.empty\<rparr>"

definition w_no_nrf_data :: world where
  "w_no_nrf_data = w_fresh\<lparr>nrf_requires_nrf_url := Some []\<rparr>"

definition w_no_storage :: world where
  "w_no_storage = w_fresh\<lparr>fs := Map.empty\<rparr>"

definition w_no_pod_ip :: world where
  "w_no_pod_ip = w_fresh\<lparr>unit_get_private_address := Some []\<rparr>"

text \<open>A unit waiting for its certificate: private key and CSR stored.\<close>

definition w_pending :: world where
  "w_pending = w_fresh\<lparr>fs := [CONFIG_DIR \<mapsto> Directory, CERTS_DIR_PATH \<mapsto> Directory,
       private_key_path \<mapsto> File ''KEY'', csr_path \<mapsto> File ''CSR ausf.sdcore'']\<rparr>"

text \<open>
  A unit serving over TLS: key, CSR and certificate stored, configuration rendered with
  \<open>https\<close>, plan holding the service.
\<close>

definition w_certified :: world where
  "w_certified = w_fresh\<lparr>fs := [CONFIG_DIR \<mapsto> Directory, CERTS_DIR_PATH \<mapsto> Directory,
       private_key_path \<mapsto> File ''KEY'', csr_path \<mapsto> File ''CSR ausf.sdcore'',
       certificate_path \<mapsto> File ''CERT'',
       config_file_path \<mapsto> File ''https 10.0.0.5 http://nrf:29510''],
     plan_services := layer0\<rparr>"

section \<open>Running the computations\<close>

named_theorems run

lemma return_run [run]: "return a w = (Inr a, w)" by (simp add: return_def)
lemma raise_run [run]: "raise e w = (Inl e, w)" by (simp add: raise_def)
lemma bind_run [run]:
  "bind m f w = (case m w of (Inl e, w') \<Rightarrow> (Inl e, w') | (Inr a, w') \<Rightarrow> f a w')"
  by (simp add: bind_def)
lemma seq_run [run]:
  "seq m n w = (case m w of (Inl e, w') \<Rightarrow> (Inl e, w') | (Inr a, w') \<Rightarrow> n w')"
  by (simp add: seq_def bind_def)
lemma gets_run [run]: "gets f w = (Inr (f w), w)" by (simp add: gets_def)
lemma modify_run [run]: "modify f w = (Inr (), f w)" by (simp add: modify_def)
lemma emit_run [run]: "emit a w = (Inr (), w\<lparr>trace := trace w @ [a]\<rparr>)"
  by (simp add: emit_def modify_def)

lemma container_can_connect_run [run]:
  "container_can_connect w = (Inr (can_connect w), w\<lparr>trace := trace w @ [Can_connect]\<rparr>)"
  by (simp add: container_can_connect_def run)

lemma container_exists_run [run]:
  "container_exists p w = (Inr (fs w p \<noteq> None), w\<lparr>trace := trace w @ [Exists p]\<rparr>)"
  by (simp add: container_exists_def run)

lemma container_pull_run [run]:
  "container_pull p w =
     ((case fs w p of Some (File c) \<Rightarrow> Inr c | _ \<Rightarrow> Inl PathError),
      w\<lparr>trace := trace w @ [Pull p]\<rparr>)"
  by (simp add: container_pull_def run split: option.splits node.splits)

lemma container_push_run [run]:
  "container_push p s mk w =
     (Inr (), w\<lparr>fs := write_file (fs w) p s mk, trace := trace w @ [Push p s mk]\<rparr>)"
  by (simp add: container_push_def run)

lemma container_remove_path_run [run]:
  "container_remove_path p w =
     (Inr (), w\<lparr>fs := (fs w)(p := None), trace := trace w @ [Remove_path p]\<rparr>)"
  by (simp add: container_remove_path_def run)

lemma container_get_plan_run [run]:
  "container_get_plan w = (Inr (plan_services w), w\<lparr>trace := trace w @ [Get_plan]\<rparr>)"
  by (simp add: container_get_plan_def run)

lemma container_add_layer_run [run]:
  "container_add_layer l layer c w =
     (Inr (), w\<lparr>plan_services := plan_services w ++\<^sub>f layer,
               trace := trace w @ [Add_layer l layer c]\<rparr>)"
  by (simp add: container_add_layer_def run)

lemma container_restart_run [run]:
  "container_restart n w = (Inr (), w\<lparr>trace := trace w @ [Restart n]\<rparr>)"
  by (simp add: container_restart_def run)

lemma model_get_relation_run [run]:
  "model_get_relation n w = (Inr (relations w n), w\<lparr>trace := trace w @ [Get_relation n]\<rparr>)"
  by (simp add: model_get_relation_def run)

lemma set_unit_status_run [run]:
  "set_unit_status s w = (Inr (), w\<lparr>unit_status := s, trace := trace w @ [Set_status s]\<rparr>)"
  by (simp add: set_unit_status_def run)

lemma event_defer_run [run]:
  "event_defer w = (Inr (), w\<lparr>trace := trace w @ [Defer]\<rparr>)"
  by (simp add: event_defer_def run)

lemma logger_run [run]:
  "logger l m w = (Inr (), w\<lparr>trace := trace w @ [Log l m]\<rparr>)"
  by (simp add: logger_def run)

lemma nrf_requires_url_run [run]:
  "nrf_requires_url w = (Inr (nrf_requires_nrf_url w), w\<lparr>trace := trace w @ [Nrf_url]\<rparr>)"
  by (simp add: nrf_requires_url_def run)

lemma check_output_unit_get_run [run]:
  "check_output_unit_get w =
     ((case unit_get_private_address w of None \<Rightarrow> Inl CalledProcessError | Some b \<Rightarrow> Inr b),
      w\<lparr>trace := trace w @ [Unit_get]\<rparr>)"
  by (simp add: check_output_unit_get_def run split: option.splits)

lemma request_run [run]:
  "certificates_request_certificate_creation csr w =
     (Inr (), w\<lparr>trace := trace w @ [Request_certificate_creation csr]\<rparr>)"
  by (simp add: certificates_request_certificate_creation_def run)

lemma get_pod_ip_run:
  "get_pod_ip env w = (fst (get_pod_ip env w), w\<lparr>trace := trace w @ [Unit_get]\<rparr>)"
  by (simp add: get_pod_ip_def run split: option.splits)

lemma get_pod_ip_cong:
  "unit_get_private_address w' = unit_get_private_address w \<Longrightarrow>
   fst (get_pod_ip env w') = fst (get_pod_ip env w)"
  by (simp add: get_pod_ip_def run split: option.splits)


lemma get_pod_ip_eq:
  "fst (get_pod_ip env w0) = r \<Longrightarrow> unit_get_private_address w = unit_get_private_address w0 \<Longrightarrow>
   get_pod_ip env w = (r, w\<lparr>trace := trace w @ [Unit_get]\<rparr>)"
  by (auto simp add: get_pod_ip_def run split: option.splits)

lemma pebble_layer_eq:
  "fst (pebble_layer env w0) = r \<Longrightarrow> unit_get_private_address w = unit_get_private_address w0 \<Longrightarrow>
   pebble_layer env w = (r, w\<lparr>trace := trace w @ [Unit_get]\<rparr>)"
  by (auto simp add: pebble_layer_def ausf_environment_variables_def get_pod_ip_def run
      split: option.splits)

lemma pebble_layer_of_pod_ip:
  "fst (get_pod_ip env w) = Inr ip \<Longrightarrow> \<exists>layer. fst (pebble_layer env w) = Inr layer"
  by (auto simp add: pebble_layer_def ausf_environment_variables_def run split: prod.splits sum.splits)

lemma config_file_content_matches_run:
  "config_file_content_matches content w =
     (Inr (fs w config_file_path = Some (File content)),
      w\<lparr>trace := trace w @ [Pull config_file_path]\<rparr>)"
  by (auto simp add: config_file_content_matches_def run split: option.splits node.splits)

lemma apply_ausf_config_run:
  assumes "fst (get_pod_ip env w0) = Inr ip"
    and "unit_get_private_address w = unit_get_private_address w0"
  shows "apply_ausf_config env w =
    (let content = render_config_file env AUSF_GROUP_ID ip SBI_PORT (nrf_requires_nrf_url w)
                     (if fs w certificate_path \<noteq> None then ''https'' else ''http'')
     in if fs w config_file_path = Some (File content)
        then (Inr False, w\<lparr>trace := trace w @
               [Unit_get, Nrf_url, Exists certificate_path, Pull config_file_path]\<rparr>)
        else (Inr True, w\<lparr>fs := write_file (fs w) config_file_path content True,
               trace := trace w @
               [Unit_get, Nrf_url, Exists certificate_path, Pull config_file_path,
                Push config_file_path content True,
                Log Info ''Pushed ausfcfg.conf config file'']\<rparr>))"
  using assms(2)
  by (simp add: apply_ausf_config_def bind_run seq_run return_run get_pod_ip_eq [OF assms(1)]
      nrf_requires_url_run certificate_is_stored_def container_exists_run
      config_file_content_matches_run push_config_file_def container_push_run logger_run Let_def
      CONFIG_FILE_NAME_def)

lemma configure_ausf_service_run:
  assumes "fst (pebble_layer env w0) = Inr layer"
    and "unit_get_private_address w = unit_get_private_address w0"
  shows "configure_ausf_service env force_restart w =
    (if plan_services w \<noteq> layer \<or> force_restart
     then (Inr (), w\<lparr>plan_services := plan_services w ++\<^sub>f layer,
             trace := trace w @
               [Unit_get, Get_plan, Add_layer container_name layer True,
                Restart service_name, Log Info ''Restarted container ausf'']\<rparr>)
     else (Inr (), w\<lparr>trace := trace w @ [Unit_get, Get_plan]\<rparr>))"
  using assms(2)
  by (simp add: configure_ausf_service_def bind_run seq_run return_run
      pebble_layer_eq [OF assms(1)]
      container_get_plan_run container_add_layer_run container_restart_run logger_run
      service_name_def)

lemma actions_since_append [simp]:
  "trace w' = trace w @ acts \<Longrightarrow> actions_since w w' = acts"
  by (simp add: actions_since_def)

lemma configure_ausf_unreachable:
  "\<not> can_connect w \<Longrightarrow>
   configure_ausf env w =
     (Inr (), w\<lparr>unit_status := WaitingStatus ''Waiting for container to start'',
        trace := trace w @ [Can_connect,
          Set_status (WaitingStatus ''Waiting for container to start''), Defer]\<rparr>)"
  by (simp add: configure_ausf_def bind_run seq_run container_can_connect_run
      set_unit_status_run event_defer_run)

lemma configure_ausf_no_relation:
  "can_connect w \<Longrightarrow> relations w ''fiveg_nrf'' = None \<Longrightarrow>
   configure_ausf env w =
     (Inr (), w\<lparr>unit_status := BlockedStatus ''Waiting for fiveg_nrf relation'',
        trace := trace w @ [Can_connect, Get_relation ''fiveg_nrf'',
          Set_status (BlockedStatus ''Waiting for fiveg_nrf relation'')]\<rparr>)"
  by (simp add: configure_ausf_def bind_run seq_run return_run container_can_connect_run
      relation_created_def model_get_relation_run set_unit_status_run)

lemma configure_ausf_no_nrf_data:
  "can_connect w \<Longrightarrow> relations w ''fiveg_nrf'' \<noteq> None \<Longrightarrow>
   \<not> truthy (nrf_requires_nrf_url w) \<Longrightarrow>
   configure_ausf env w =
     (Inr (), w\<lparr>unit_status := WaitingStatus ''Waiting for NRF data to be available'',
        trace := trace w @ [Can_connect, Get_relation ''fiveg_nrf'', Nrf_url,
          Set_status (WaitingStatus ''Waiting for NRF data to be available''), Defer]\<rparr>)"
  by (simp del: not_None_eq add: configure_ausf_def bind_run seq_run return_run container_can_connect_run
      relation_created_def model_get_relation_run nrf_data_is_available_def
      nrf_requires_url_run set_unit_status_run event_defer_run)

lemma configure_ausf_no_storage:
  "can_connect w \<Longrightarrow> relations w ''fiveg_nrf'' \<noteq> None \<Longrightarrow>
   truthy (nrf_requires_nrf_url w) \<Longrightarrow> fs w CONFIG_DIR = None \<Longrightarrow>
   configure_ausf env w =
     (Inr (), w\<lparr>unit_status := WaitingStatus ''Waiting for storage to be attached'',
        trace := trace w @ [Can_connect, Get_relation ''fiveg_nrf'', Nrf_url,
          Exists CONFIG_DIR,
          Set_status (WaitingStatus ''Waiting for storage to be attached''), Defer]\<rparr>)"
  by (simp del: not_None_eq add: configure_ausf_def bind_run seq_run return_run container_can_connect_run
      relation_created_def model_get_relation_run nrf_data_is_available_def
      nrf_requires_url_run container_exists_run set_unit_status_run event_defer_run)

lemma configure_ausf_no_pod_ip:
  assumes "can_connect w" "relations w ''fiveg_nrf'' \<noteq> None"
    "truthy (nrf_requires_nrf_url w)" "fs w CONFIG_DIR \<noteq> None"
    "fst (get_pod_ip env w) = Inr ip" "\<not> truthy ip"
  shows "configure_ausf env w =
     (Inr (), w\<lparr>unit_status := WaitingStatus ''Waiting for pod IP address to be available'',
        trace := trace w @ [Can_connect, Get_relation ''fiveg_nrf'', Nrf_url,
          Exists CONFIG_DIR, Unit_get,
          Set_status (WaitingStatus ''Waiting for pod IP address to be available''),
          Defer]\<rparr>)"
  using assms(1-4,6)
  by (simp del: not_None_eq add: configure_ausf_def bind_run seq_run return_run container_can_connect_run
      relation_created_def model_get_relation_run nrf_data_is_available_def
      nrf_requires_url_run container_exists_run get_pod_ip_eq [OF assms(5)]
      set_unit_status_run event_defer_run)

lemma configure_ausf_pod_ip_raises:
  assumes "can_connect w" "relations w ''fiveg_nrf'' \<noteq> None"
    "truthy (nrf_requires_nrf_url w)" "fs w CONFIG_DIR \<noteq> None"
    "fst (get_pod_ip env w) = Inl e"
  shows "configure_ausf env w =
     (Inl e, w\<lparr>trace := trace w @ [Can_connect, Get_relation ''fiveg_nrf'', Nrf_url,
          Exists CONFIG_DIR, Unit_get]\<rparr>)"
  using assms(1-4)
  by (simp del: not_None_eq add: configure_ausf_def bind_run seq_run return_run container_can_connect_run
      relation_created_def model_get_relation_run nrf_data_is_available_def
      nrf_requires_url_run container_exists_run get_pod_ip_eq [OF assms(5)])

lemma bind_Inr: "m w = (Inr a, w') \<Longrightarrow> bind m f w = f a w'"
  by (simp add: bind_def)

lemma bind_Inl: "m w = (Inl e, w') \<Longrightarrow> bind m f w = (Inl e, w')"
  by (simp add: bind_def)

lemma seq_Inr: "m w = (Inr u, w') \<Longrightarrow> seq m n w = n w'"
  by (simp add: seq_def bind_def)

lemma seq_Inl: "m w = (Inl e, w') \<Longrightarrow> seq m n w = (Inl e, w')"
  by (simp add: seq_def bind_def)

lemma configure_ausf_gate:
  assumes "can_connect w" "relations w ''fiveg_nrf'' \<noteq> None"
    "truthy (nrf_requires_nrf_url w)" "fs w CONFIG_DIR \<noteq> None"
    "fst (get_pod_ip env w) = Inr ip" "truthy ip"
  shows "configure_ausf env w =
     bind (apply_ausf_config env) (\<lambda>config_file_changed.
       seq (configure_ausf_service env config_file_changed) (set_unit_status ActiveStatus))
       (w\<lparr>trace := trace w @
          [Can_connect, Get_relation ''fiveg_nrf'', Nrf_url, Exists CONFIG_DIR, Unit_get]\<rparr>)"
proof -
  let ?w1 = "w\<lparr>trace := trace w @ [Can_connect]\<rparr>"
  let ?w2 = "w\<lparr>trace := trace w @ [Can_connect, Get_relation ''fiveg_nrf'']\<rparr>"
  let ?w3 = "w\<lparr>trace := trace w @ [Can_connect, Get_relation ''fiveg_nrf'', Nrf_url]\<rparr>"
  let ?w4 = "w\<lparr>trace := trace w @
     [Can_connect, Get_relation ''fiveg_nrf'', Nrf_url, Exists CONFIG_DIR]\<rparr>"
  let ?w5 = "w\<lparr>trace := trace w @
     [Can_connect, Get_relation ''fiveg_nrf'', Nrf_url, Exists CONFIG_DIR, Unit_get]\<rparr>"
  have 1: "container_can_connect w = (Inr True, ?w1)"
    using assms(1) by (simp add: container_can_connect_run)
  have 2: "relation_created ''fiveg_nrf'' ?w1 = (Inr True, ?w2)"
    using assms(2)
    by (simp del: not_None_eq add: relation_created_def bind_run return_run
        model_get_relation_run)
  have 3: "nrf_data_is_available ?w2 = (Inr True, ?w3)"
    using assms(3) by (simp add: nrf_data_is_available_def bind_run return_run nrf_requires_url_run)
  have 4: "container_exists CONFIG_DIR ?w3 = (Inr True, ?w4)"
    using assms(4) by (simp del: not_None_eq add: container_exists_run)
  have 5: "get_pod_ip env ?w4 = (Inr ip, ?w5)"
    by (simp add: get_pod_ip_eq [OF assms(5)])
  show ?thesis
    unfolding configure_ausf_def
    using assms(6)
    by (simp add: bind_run 1 2 3 4 5)
qed

lemma configure_ausf_ready:
  assumes "can_connect w" "relations w ''fiveg_nrf'' \<noteq> None"
    "truthy (nrf_requires_nrf_url w)" "fs w CONFIG_DIR \<noteq> None"
    "fst (get_pod_ip env w) = Inr ip" "truthy ip"
    "fst (pebble_layer env w) = Inr layer"
  shows "configure_ausf env w =
    (let content = render_config_file env AUSF_GROUP_ID ip SBI_PORT (nrf_requires_nrf_url w)
                     (if fs w certificate_path \<noteq> None then ''https'' else ''http'');
         changed = (fs w config_file_path \<noteq> Some (File content));
         restart = (plan_services w \<noteq> layer \<or> changed)
     in (Inr (),
         w\<lparr>fs := (if changed then write_file (fs w) config_file_path content True else fs w),
           plan_services := (if restart then plan_services w ++\<^sub>f layer else plan_services w),
           unit_status := ActiveStatus,
           trace := trace w @
             [Can_connect, Get_relation ''fiveg_nrf'', Nrf_url, Exists CONFIG_DIR, Unit_get,
              Unit_get, Nrf_url, Exists certificate_path, Pull config_file_path] @
             (if changed then [Push config_file_path content True,
                Log Info ''Pushed ausfcfg.conf config file''] else []) @
             [Unit_get, Get_plan] @
             (if restart then [Add_layer container_name layer True, Restart service_name,
                Log Info ''Restarted container ausf''] else []) @
             [Set_status ActiveStatus]\<rparr>))"
  by (simp add: configure_ausf_gate [OF assms(1-6)] bind_run seq_run
      apply_ausf_config_run [OF assms(5)] Let_def
      configure_ausf_service_run [OF assms(7)] set_unit_status_run)

lemma paths_distinct:
  "private_key_path \<noteq> csr_path" "private_key_path \<noteq> certificate_path"
  "csr_path \<noteq> certificate_path" "csr_path \<noteq> private_key_path"
  "certificate_path \<noteq> private_key_path" "certificate_path \<noteq> csr_path"
  "config_file_path \<noteq> private_key_path" "config_file_path \<noteq> csr_path"
  "config_file_path \<noteq> certificate_path" "config_file_path \<noteq> CONFIG_DIR"
  "private_key_path \<noteq> config_file_path" "csr_path \<noteq> config_file_path"
  "certificate_path \<noteq> config_file_path" "CONFIG_DIR \<noteq> config_file_path"
  "private_key_path \<noteq> CONFIG_DIR" "csr_path \<noteq> CONFIG_DIR" "certificate_path \<noteq> CONFIG_DIR"
  "CONFIG_DIR \<noteq> private_key_path" "CONFIG_DIR \<noteq> csr_path" "CONFIG_DIR \<noteq> certificate_path"
  by (simp_all add: private_key_path_def csr_path_def certificate_path_def config_file_path_def
      CERTS_DIR_PATH_def CONFIG_DIR_def PRIVATE_KEY_NAME_def CSR_NAME_def CERTIFICATE_NAME_def
      CONFIG_FILE_NAME_def)

lemma ancestors_config_file_path:
  "ancestors config_file_path = [''/free5gc'', ''/free5gc/config'']"
  unfolding ancestors_def config_file_path_def CONFIG_DIR_def CONFIG_FILE_NAME_def
  by code_simp

section \<open>A pass that reaches the service step\<close>

lemma trace_configure_ausf_ready:
  assumes "can_connect w" "relations w ''fiveg_nrf'' \<noteq> None"
    "truthy (nrf_requires_nrf_url w)" "fs w CONFIG_DIR \<noteq> None"
    "fst (get_pod_ip env w) = Inr ip" "truthy ip"
    "fst (pebble_layer env w) = Inr layer"
    "fst (apply_ausf_config env w) = Inr changed"
  shows "fst (configure_ausf env w) = Inr ()"
    and "actions_since w (snd (configure_ausf env w)) =
       [Can_connect, Get_relation ''fiveg_nrf'', Nrf_url, Exists CONFIG_DIR, Unit_get,
        Unit_get, Nrf_url, Exists certificate_path, Pull config_file_path] @
       (if changed then
          [Push config_file_path
             (render_config_file env AUSF_GROUP_ID ip SBI_PORT (nrf_requires_nrf_url w)
                (if fs w certificate_path \<noteq> None then ''https'' else ''http'')) True,
           Log Info ''Pushed ausfcfg.conf config file'']
        else []) @
       [Unit_get, Get_plan] @
       (if plan_services w \<noteq> layer \<or> changed then
          [Add_layer container_name layer True, Restart service_name,
           Log Info ''Restarted container ausf'']
        else []) @
       [Set_status ActiveStatus]"
    and "plan_services (snd (configure_ausf env w)) =
       (if plan_services w \<noteq> layer \<or> changed then plan_services w ++\<^sub>f layer
        else plan_services w)"
proof -
  have c: "changed = (fs w config_file_path \<noteq> Some (File
      (render_config_file env AUSF_GROUP_ID ip SBI_PORT (nrf_requires_nrf_url w)
         (if fs w certificate_path \<noteq> None then ''https'' else ''http''))))"
    using assms(8) by (simp add: apply_ausf_config_run [OF assms(5)] Let_def split: if_splits)
  note r = configure_ausf_ready [OF assms(1-7)]
  show "fst (configure_ausf env w) = Inr ()"
    by (simp add: r Let_def)
  show "actions_since w (snd (configure_ausf env w)) =
       [Can_connect, Get_relation ''fiveg_nrf'', Nrf_url, Exists CONFIG_DIR, Unit_get,
        Unit_get, Nrf_url, Exists certificate_path, Pull config_file_path] @
       (if changed then
          [Push config_file_path
             (render_config_file env AUSF_GROUP_ID ip SBI_PORT (nrf_requires_nrf_url w)
                (if fs w certificate_path \<noteq> None then ''https'' else ''http'')) True,
           Log Info ''Pushed ausfcfg.conf config file'']
        else []) @
       [Unit_get, Get_plan] @
       (if plan_services w \<noteq> layer \<or> changed then
          [Add_layer container_name layer True, Restart service_name,
           Log Info ''Restarted container ausf'']
        else []) @
       [Set_status ActiveStatus]"
    unfolding c by (simp add: r Let_def)
  show "plan_services (snd (configure_ausf env w)) =
       (if plan_services w \<noteq> layer \<or> changed then plan_services w ++\<^sub>f layer
        else plan_services w)"
    unfolding c by (simp add: r Let_def)
qed

lemma fresh_ready:
  "can_connect w_fresh" "relations w_fresh ''fiveg_nrf'' \<noteq> None"
  "truthy (nrf_requires_nrf_url w_fresh)" "fs w_fresh CONFIG_DIR \<noteq> None"
  "fst (get_pod_ip env0 w_fresh) = Inr (Some ''10.0.0.5'')" "truthy (Some ''10.0.0.5'')"
  "fst (pebble_layer env0 w_fresh) = Inr layer0"
  "fst (apply_ausf_config env0 w_fresh) = Inr True"
  by code_simp+

lemma steady_ready:
  "can_connect w_steady" "relations w_steady ''fiveg_nrf'' \<noteq> None"
  "truthy (nrf_requires_nrf_url w_steady)" "fs w_steady CONFIG_DIR \<noteq> None"
  "fst (get_pod_ip env0 w_steady) = Inr (Some ''10.0.0.5'')" "truthy (Some ''10.0.0.5'')"
  "fst (pebble_layer env0 w_steady) = Inr layer0"
  "fst (apply_ausf_config env0 w_steady) = Inr False"
  by code_simp+

section \<open>Passes that stop at the gate\<close>

lemma actions_since_update [simp]:
  "actions_since w (w\<lparr>trace := trace w @ acts\<rparr>) = acts"
  by (simp add: actions_since_def)

lemma configure_ausf_first_queries:
  assumes "can_connect w" "relations w ''fiveg_nrf'' \<noteq> None"
    "truthy (nrf_requires_nrf_url w)" "fs w CONFIG_DIR \<noteq> None"
  shows "take 5 (filter is_query (actions_since w (snd (configure_ausf env w)))) =
    [Can_connect, Get_relation ''fiveg_nrf'', Nrf_url, Exists CONFIG_DIR, Unit_get]"
proof (cases "fst (get_pod_ip env w)")
  case (Inl e)
  show ?thesis by (simp add: configure_ausf_pod_ip_raises [OF assms Inl])
next
  case (Inr ip)
  show ?thesis
  proof (cases "truthy ip")
    case False
    show ?thesis by (simp add: configure_ausf_no_pod_ip [OF assms Inr False])
  next
    case True
    obtain layer where l: "fst (pebble_layer env w) = Inr layer"
      using pebble_layer_of_pod_ip [OF Inr] by blast
    show ?thesis by (simp add: configure_ausf_ready [OF assms Inr True l] Let_def)
  qed
qed

lemma gate_worlds:
  "\<not> can_connect w_down" "relations w_down ''fiveg_nrf'' = None"
  "can_connect w_no_relation" "relations w_no_relation ''fiveg_nrf'' = None"
  "can_connect w_no_nrf_data" "relations w_no_nrf_data ''fiveg_nrf'' \<noteq> None"
  "\<not> truthy (nrf_requires_nrf_url w_no_nrf_data)"
  "can_connect w_no_storage" "relations w_no_storage ''fiveg_nrf'' \<noteq> None"
  "truthy (nrf_requires_nrf_url w_no_storage)" "fs w_no_storage CONFIG_DIR = None"
  "can_connect w_no_pod_ip" "relations w_no_pod_ip ''fiveg_nrf'' \<noteq> None"
  "truthy (nrf_requires_nrf_url w_no_pod_ip)" "fs w_no_pod_ip CONFIG_DIR \<noteq> None"
  "fst (get_pod_ip env0 w_no_pod_ip) = Inr None" "\<not> truthy None"
  by code_simp+

section \<open>Files\<close>

lemma write_file_same [simp]: "write_file f p s mk p = Some (File s)"
  by (simp add: write_file_def)

lemma write_file_no_dirs [simp]: "write_file f p s False = f(p \<mapsto> File s)"
  by (auto simp add: write_file_def fun_eq_iff)

lemma write_file_config_other:
  "p \<noteq> config_file_path \<Longrightarrow> p \<noteq> ''/free5gc'' \<Longrightarrow> p \<noteq> ''/free5gc/config'' \<Longrightarrow>
   write_file f config_file_path s mk p = f p"
  by (simp add: write_file_def ancestors_config_file_path)

lemma write_file_config_artifacts [simp]:
  "write_file f config_file_path s mk private_key_path = f private_key_path"
  "write_file f config_file_path s mk csr_path = f csr_path"
  "write_file f config_file_path s mk certificate_path = f certificate_path"
  by (rule write_file_config_other;
      simp add: private_key_path_def csr_path_def certificate_path_def config_file_path_def
        CERTS_DIR_PATH_def CONFIG_DIR_def PRIVATE_KEY_NAME_def CSR_NAME_def
        CERTIFICATE_NAME_def CONFIG_FILE_NAME_def)+



section \<open>What a pass leaves alone\<close>

lemma configure_ausf_frame:
  shows "\<exists>acts. trace (snd (configure_ausf env v)) = trace v @ acts \<and>
      (\<forall>p. Remove_path p \<notin> set acts) \<and>
      (\<forall>p c b. Push p c b \<in> set acts \<longrightarrow> p = config_file_path) \<and>
      (\<forall>c. Request_certificate_creation c \<notin> set acts)"
  and "fs (snd (configure_ausf env v)) private_key_path = fs v private_key_path"
  and "fs (snd (configure_ausf env v)) csr_path = fs v csr_path"
  and "fs (snd (configure_ausf env v)) certificate_path = fs v certificate_path"
proof -
  let ?P = "(\<exists>acts. trace (snd (configure_ausf env v)) = trace v @ acts \<and>
      (\<forall>p. Remove_path p \<notin> set acts) \<and>
      (\<forall>p c b. Push p c b \<in> set acts \<longrightarrow> p = config_file_path) \<and>
      (\<forall>c. Request_certificate_creation c \<notin> set acts)) \<and>
    fs (snd (configure_ausf env v)) private_key_path = fs v private_key_path \<and>
    fs (snd (configure_ausf env v)) csr_path = fs v csr_path \<and>
    fs (snd (configure_ausf env v)) certificate_path = fs v certificate_path"
  have ?P
  proof (cases "can_connect v")
    case False
    show ?thesis by (simp add: configure_ausf_unreachable [OF False])
  next
    case c: True
    show ?thesis
    proof (cases "relations v ''fiveg_nrf'' = None")
      case True
      show ?thesis by (simp add: configure_ausf_no_relation [OF c True])
    next
      case r: False
      show ?thesis
      proof (cases "truthy (nrf_requires_nrf_url v)")
        case False
        show ?thesis by (simp add: configure_ausf_no_nrf_data [OF c r False])
      next
        case n: True
        show ?thesis
        proof (cases "fs v CONFIG_DIR = None")
          case True
          show ?thesis by (simp add: configure_ausf_no_storage [OF c r n True])
        next
          case d: False
          show ?thesis
          proof (cases "fst (get_pod_ip env v)")
            case (Inl e)
            show ?thesis by (simp add: configure_ausf_pod_ip_raises [OF c r n d Inl])
          next
            case (Inr ip)
            show ?thesis
            proof (cases "truthy ip")
              case False
              show ?thesis by (simp add: configure_ausf_no_pod_ip [OF c r n d Inr False])
            next
              case True
              obtain layer where l: "fst (pebble_layer env v) = Inr layer"
                using pebble_layer_of_pod_ip [OF Inr] by blast
              show ?thesis
                by (simp add: configure_ausf_ready [OF c r n d Inr True l] Let_def)
            qed
          qed
        qed
      qed
    qed
  qed
  then show "\<exists>acts. trace (snd (configure_ausf env v)) = trace v @ acts \<and>
      (\<forall>p. Remove_path p \<notin> set acts) \<and>
      (\<forall>p c b. Push p c b \<in> set acts \<longrightarrow> p = config_file_path) \<and>
      (\<forall>c. Request_certificate_creation c \<notin> set acts)"
    and "fs (snd (configure_ausf env v)) private_key_path = fs v private_key_path"
    and "fs (snd (configure_ausf env v)) csr_path = fs v csr_path"
    and "fs (snd (configure_ausf env v)) certificate_path = fs v certificate_path"
    by blast+
qed

section \<open>The certificate handlers, case by case\<close>

lemma on_certificate_available_no_csr:
  "can_connect w \<Longrightarrow> fs w csr_path = None \<Longrightarrow>
   on_certificate_available env ev w =
     (Inr (), w\<lparr>trace := trace w @ [Can_connect, Exists csr_path,
        Log Warning ''Certificate is available but no CSR is stored'']\<rparr>)"
  by (simp add: on_certificate_available_def bind_run container_can_connect_run
      csr_is_stored_def container_exists_run logger_run)

lemma on_certificate_available_csr_directory:
  "can_connect w \<Longrightarrow> fs w csr_path = Some Directory \<Longrightarrow>
   on_certificate_available env ev w =
     (Inl PathError, w\<lparr>trace := trace w @ [Can_connect, Exists csr_path, Pull csr_path]\<rparr>)"
  by (simp add: on_certificate_available_def bind_run container_can_connect_run
      csr_is_stored_def container_exists_run get_stored_csr_def container_pull_run)

lemma on_certificate_available_mismatch:
  "can_connect w \<Longrightarrow> fs w csr_path = Some (File c) \<Longrightarrow>
   certificate_signing_request ev \<noteq> c \<Longrightarrow>
   on_certificate_available env ev w =
     (Inr (), w\<lparr>trace := trace w @ [Can_connect, Exists csr_path, Pull csr_path,
        Log Debug ''Stored CSR doesn't match one in certificate available event'']\<rparr>)"
  by (simp add: on_certificate_available_def bind_run container_can_connect_run
      csr_is_stored_def container_exists_run get_stored_csr_def container_pull_run logger_run)

lemma on_certificate_available_match:
  "can_connect w \<Longrightarrow> fs w csr_path = Some (File (certificate_signing_request ev)) \<Longrightarrow>
   on_certificate_available env ev w =
     configure_ausf env
       (w\<lparr>fs := (fs w)(certificate_path \<mapsto> File (certificate ev)),
          trace := trace w @ [Can_connect, Exists csr_path, Pull csr_path,
            Push certificate_path (certificate ev) False,
            Log Info ''Pushed certificate pushed to workload'']\<rparr>)"
  by (simp add: on_certificate_available_def bind_run seq_run container_can_connect_run
      csr_is_stored_def container_exists_run get_stored_csr_def container_pull_run
      store_certificate_def container_push_run logger_run)

lemma actions_since_extended:
  "trace w' = (trace w @ xs) @ ys \<Longrightarrow> actions_since w w' = xs @ ys"
  by (simp add: actions_since_def)

lemma pending_facts:
  "can_connect w_pending"
  "fs w_pending csr_path = Some (File (certificate_signing_request
     (CertificateAvailableEvent ''CERT'' ''CSR ausf.sdcore'')))"
  "fs w_pending csr_path \<noteq> Some (File (certificate_signing_request
     (CertificateAvailableEvent ''CERT'' ''CSR other'')))"
  by code_simp+

lemma delete_private_key_run:
  "delete_private_key w =
     (Inr (), w\<lparr>fs := (fs w)(private_key_path := None),
        trace := trace w @ Exists private_key_path #
          (if fs w private_key_path \<noteq> None
           then [Remove_path private_key_path, Log Info ''Removed private key from workload'']
           else [])\<rparr>)"
  by (simp add: delete_private_key_def bind_run seq_run return_run private_key_is_stored_def
      container_exists_run container_remove_path_run logger_run fun_upd_idem)

lemma delete_csr_run:
  "delete_csr w =
     (Inr (), w\<lparr>fs := (fs w)(csr_path := None),
        trace := trace w @ Exists csr_path #
          (if fs w csr_path \<noteq> None
           then [Remove_path csr_path, Log Info ''Removed CSR from workload'']
           else [])\<rparr>)"
  by (simp add: delete_csr_def bind_run seq_run return_run csr_is_stored_def
      container_exists_run container_remove_path_run logger_run fun_upd_idem)

lemma delete_certificate_run:
  "delete_certificate w =
     (Inr (), w\<lparr>fs := (fs w)(certificate_path := None),
        trace := trace w @ Exists certificate_path #
          (if fs w certificate_path \<noteq> None
           then [Remove_path certificate_path, Log Info ''Removed certificate from workload'']
           else [])\<rparr>)"
  by (simp add: delete_certificate_def bind_run seq_run return_run certificate_is_stored_def
      container_exists_run container_remove_path_run logger_run fun_upd_idem)

lemma on_certificates_relation_broken_run:
  assumes "can_connect w"
  shows "on_certificates_relation_broken env w =
     configure_ausf env
       (w\<lparr>fs := (fs w)(private_key_path := None, csr_path := None, certificate_path := None),
          trace := trace w @ [Can_connect] @
            Exists private_key_path #
            (if fs w private_key_path \<noteq> None
             then [Remove_path private_key_path,
                   Log Info ''Removed private key from workload'']
             else []) @
            Exists csr_path #
            (if fs w csr_path \<noteq> None
             then [Remove_path csr_path, Log Info ''Removed CSR from workload'']
             else []) @
            Exists certificate_path #
            (if fs w certificate_path \<noteq> None
             then [Remove_path certificate_path,
                   Log Info ''Removed certificate from workload'']
             else [])\<rparr>)"
  using assms
  by (simp add: on_certificates_relation_broken_def bind_run seq_run container_can_connect_run
      delete_private_key_run delete_csr_run delete_certificate_run paths_distinct)

lemma configure_ausf_ready_file:
  assumes "can_connect w" "relations w ''fiveg_nrf'' \<noteq> None"
    "truthy (nrf_requires_nrf_url w)" "fs w CONFIG_DIR \<noteq> None"
    "fst (get_pod_ip env w) = Inr ip" "truthy ip"
  shows "fst (configure_ausf env w) = Inr ()"
    and "unit_status (snd (configure_ausf env w)) = ActiveStatus"
    and "fs (snd (configure_ausf env w)) config_file_path =
      Some (File (render_config_file env AUSF_GROUP_ID ip SBI_PORT (nrf_requires_nrf_url w)
         (if fs w certificate_path \<noteq> None then ''https'' else ''http'')))"
proof -
  obtain layer where l: "fst (pebble_layer env w) = Inr layer"
    using pebble_layer_of_pod_ip [OF assms(5)] by blast
  note r = configure_ausf_ready [OF assms l]
  show "fst (configure_ausf env w) = Inr ()"
    and "unit_status (snd (configure_ausf env w)) = ActiveStatus"
    and "fs (snd (configure_ausf env w)) config_file_path =
      Some (File (render_config_file env AUSF_GROUP_ID ip SBI_PORT (nrf_requires_nrf_url w)
         (if fs w certificate_path \<noteq> None then ''https'' else ''http'')))"
    by (simp_all add: r Let_def)
qed

lemma certified_facts:
  "can_connect w_certified" "relations w_certified ''fiveg_nrf'' \<noteq> None"
  "truthy (nrf_requires_nrf_url w_certified)" "fs w_certified CONFIG_DIR \<noteq> None"
  "fst (get_pod_ip env0 w_certified) = Inr (Some ''10.0.0.5'')"
  "truthy (Some ''10.0.0.5'')"
  "fs w_certified certificate_path \<noteq> None"
  "fs w_certified config_file_path = Some (File ''https 10.0.0.5 http://nrf:29510'')"
  "render_config_file env0 AUSF_GROUP_ID (Some ''10.0.0.5'') SBI_PORT
     (nrf_requires_nrf_url w_certified) ''http'' = ''http 10.0.0.5 http://nrf:29510''"
  by code_simp+



lemma dropWhile_shorter:
  "xs \<noteq> [] \<Longrightarrow> P (hd xs) \<Longrightarrow> length (dropWhile P xs) < length xs"
  by (cases xs) (simp_all add: le_imp_less_Suc length_dropWhile_le)

lemma strip_shorter:
  assumes "t \<noteq> []" "isspace (hd t) \<or> isspace (last t)"
  shows "length (strip t) < length t"
proof -
  have le: "length (dropWhile isspace t) \<le> length t"
    by (rule length_dropWhile_le)
  have le2: "length (strip t) \<le> length (dropWhile isspace t)"
    using length_dropWhile_le [of isspace "rev (dropWhile isspace t)"]
    by (simp add: strip_def)
  from assms(2) show ?thesis
  proof
    assume "isspace (hd t)"
    then have "length (dropWhile isspace t) < length t"
      using assms(1) by (rule dropWhile_shorter [rotated])
    with le2 show ?thesis by simp
  next
    assume sp: "isspace (last t)"
    show ?thesis
    proof (cases "dropWhile isspace t = []")
      case True
      then have "strip t = []" unfolding strip_def by (simp only: rev.simps dropWhile.simps)
      then show ?thesis using assms(1) by simp
    next
      case False
      then have "last (dropWhile isspace t) = last t"
        by (metis takeWhile_dropWhile_id last_appendR)
      then have "isspace (hd (rev (dropWhile isspace t)))"
        using sp False by (simp add: hd_rev)
      then have "length (dropWhile isspace (rev (dropWhile isspace t))) <
          length (rev (dropWhile isspace t))"
        using False by (intro dropWhile_shorter) simp_all
      then show ?thesis using le by (simp add: strip_def)
    qed
  qed
qed

lemma strip_changes:
  "t \<noteq> [] \<Longrightarrow> isspace (hd t) \<or> isspace (last t) \<Longrightarrow> strip t \<noteq> t"
  using strip_shorter [of t] by auto

lemma request_new_certificate_run:
  assumes "fs w private_key_path = Some (File k)"
    and "csr = tls_generate_csr env (encode env k) CERTIFICATE_COMMON_NAME
           [CERTIFICATE_COMMON_NAME]"
    and "decode env csr = Some t"
  shows "request_new_certificate env w =
     (Inr (), w\<lparr>fs := (fs w)(csr_path \<mapsto> File (strip t)),
        trace := trace w @ [Pull private_key_path, Push csr_path (strip t) False,
          Log Info ''Pushed CSR to workload'', Request_certificate_creation csr]\<rparr>)"
  using assms(1) assms(3) [unfolded assms(2)]
  by (simp add: request_new_certificate_def bind_run seq_run return_run
      get_stored_private_key_def container_pull_run store_csr_def container_push_run
      logger_run request_run Let_def assms(2))

lemma keyed_request_facts:
  "fs w_keyed private_key_path = Some (File ''OLD KEY'')"
  "''CSR ausf.sdcore'' @ [CHR 0x0A] =
     tls_generate_csr env0 (encode env0 ''OLD KEY'') CERTIFICATE_COMMON_NAME
       [CERTIFICATE_COMMON_NAME]"
  "decode env0 (''CSR ausf.sdcore'' @ [CHR 0x0A]) = Some (''CSR ausf.sdcore'' @ [CHR 0x0A])"
  "''CSR ausf.sdcore'' @ [CHR 0x0A] \<noteq> []"
  "isspace (hd (''CSR ausf.sdcore'' @ [CHR 0x0A])) \<or>
   isspace (last (''CSR ausf.sdcore'' @ [CHR 0x0A]))"
  "can_connect (snd (request_new_certificate env0 w_keyed))"
  "certificate_signing_request
     (CertificateAvailableEvent ''CERT'' (''CSR ausf.sdcore'' @ [CHR 0x0A])) =
   ''CSR ausf.sdcore'' @ [CHR 0x0A]"
  "strip (''CSR ausf.sdcore'' @ [CHR 0x0A]) = ''CSR ausf.sdcore''"
  by code_simp+

lemma on_certificate_expiring_no_certificate:
  "can_connect w \<Longrightarrow> fs w certificate_path = None \<Longrightarrow>
   on_certificate_expiring env ev w =
     (Inl PathError, w\<lparr>trace := trace w @ [Can_connect, Pull certificate_path]\<rparr>)"
  by (simp add: on_certificate_expiring_def bind_run container_can_connect_run
      get_stored_certificate_def container_pull_run)

lemma on_certificate_expiring_other_certificate:
  "can_connect w \<Longrightarrow> fs w certificate_path = Some (File c) \<Longrightarrow>
   expiring_certificate ev \<noteq> c \<Longrightarrow>
   on_certificate_expiring env ev w =
     (Inr (), w\<lparr>trace := trace w @ [Can_connect, Pull certificate_path,
        Log Debug ''Expiring certificate is not the one stored'']\<rparr>)"
  by (simp add: on_certificate_expiring_def bind_run container_can_connect_run
      get_stored_certificate_def container_pull_run logger_run)

lemma on_certificate_expiring_stored_certificate:
  "can_connect w \<Longrightarrow> fs w certificate_path = Some (File (expiring_certificate ev)) \<Longrightarrow>
   on_certificate_expiring env ev w =
     request_new_certificate env
       (w\<lparr>trace := trace w @ [Can_connect, Pull certificate_path]\<rparr>)"
  by (simp add: on_certificate_expiring_def bind_run container_can_connect_run
      get_stored_certificate_def container_pull_run)

section \<open>Restart necessity\<close>

text \<open>
  Claim C1. On a pass whose five preconditions hold, so that it reaches
  \<open>_configure_ausf_service\<close>, the service is restarted if and only if the services of
  the current plan differ from the newly computed layer or \<open>_apply_ausf_config\<close>
  reported a change; it is then restarted exactly once, and not at all otherwise.
\<close>

theorem restart_iff_spec_or_config_changed:
  assumes "can_connect w" "relations w ''fiveg_nrf'' \<noteq> None"
    "truthy (nrf_requires_nrf_url w)" "fs w CONFIG_DIR \<noteq> None"
    "fst (get_pod_ip env w) = Inr ip" "truthy ip"
    "fst (pebble_layer env w) = Inr layer"
    "fst (apply_ausf_config env w) = Inr changed"
  shows "fst (configure_ausf env w) = Inr () \<and>
    (Restart service_name \<in> set (actions_since w (snd (configure_ausf env w))) \<longleftrightarrow>
       plan_services w \<noteq> layer \<or> changed) \<and>
    count_list (actions_since w (snd (configure_ausf env w))) (Restart service_name) =
       (if plan_services w \<noteq> layer \<or> changed then 1 else 0)"
  by (simp add: trace_configure_ausf_ready [OF assms])

theorem restart_iff_spec_or_config_changed_witness:
  "can_connect w_fresh \<and> relations w_fresh ''fiveg_nrf'' \<noteq> None \<and>
   truthy (nrf_requires_nrf_url w_fresh) \<and> fs w_fresh CONFIG_DIR \<noteq> None \<and>
   fst (get_pod_ip env0 w_fresh) = Inr (Some ''10.0.0.5'') \<and> truthy (Some ''10.0.0.5'') \<and>
   fst (pebble_layer env0 w_fresh) = Inr layer0 \<and>
   fst (apply_ausf_config env0 w_fresh) = Inr True \<and>
   fst (configure_ausf env0 w_fresh) = Inr () \<and>
   Restart service_name \<in> set (actions_since w_fresh (snd (configure_ausf env0 w_fresh)))"
  using restart_iff_spec_or_config_changed [OF fresh_ready] fresh_ready by simp

section \<open>Certificate acceptance\<close>

text \<open>
  Claim C2. With the container reachable, \<open>_on_certificate_available\<close> pushes the
  event's certificate exactly when the stored CSR is a file whose content equals the
  event's \<open>certificate_signing_request\<close>; the certificate file then holds the event's
  certificate when the handler ends. Otherwise (no CSR stored, or a different one) the files,
  the plan and the status are unchanged, nothing is written and the event is not deferred;
  unless the CSR path is a directory, the handler returns normally.
\<close>

theorem certificate_stored_iff_csr_matches:
  assumes "can_connect w"
  shows "let w' = snd (on_certificate_available env ev w); acts = actions_since w w'
    in (Push certificate_path (certificate ev) False \<in> set acts \<longleftrightarrow>
          fs w csr_path = Some (File (certificate_signing_request ev))) \<and>
       (fs w csr_path = Some (File (certificate_signing_request ev)) \<longrightarrow>
          fs w' certificate_path = Some (File (certificate ev))) \<and>
       (fs w csr_path \<noteq> Some (File (certificate_signing_request ev)) \<longrightarrow>
          fs w' = fs w \<and> plan_services w' = plan_services w \<and>
          unit_status w' = unit_status w \<and> filter is_write acts = [] \<and>
          Defer \<notin> set acts \<and>
          (fs w csr_path \<noteq> Some Directory \<longrightarrow>
             fst (on_certificate_available env ev w) = Inr ()))"
proof (cases "fs w csr_path = Some (File (certificate_signing_request ev))")
  case True
  let ?w1 = "w\<lparr>fs := (fs w)(certificate_path \<mapsto> File (certificate ev)),
          trace := trace w @ [Can_connect, Exists csr_path, Pull csr_path,
            Push certificate_path (certificate ev) False,
            Log Info ''Pushed certificate pushed to workload'']\<rparr>"
  note m = on_certificate_available_match [OF assms True, of env]
  obtain acts where a: "trace (snd (configure_ausf env ?w1)) = trace ?w1 @ acts"
    using configure_ausf_frame(1) [of env ?w1] by blast
  have "actions_since w (snd (configure_ausf env ?w1)) =
      [Can_connect, Exists csr_path, Pull csr_path,
       Push certificate_path (certificate ev) False,
       Log Info ''Pushed certificate pushed to workload''] @ acts"
    by (rule actions_since_extended) (simp add: a)
  moreover have "fs (snd (configure_ausf env ?w1)) certificate_path =
      Some (File (certificate ev))"
    by (simp add: configure_ausf_frame(4))
  ultimately show ?thesis
    using True by (simp add: m Let_def)
next
  case False
  show ?thesis
  proof (cases "fs w csr_path")
    case None
    show ?thesis
      using False by (simp add: on_certificate_available_no_csr [OF assms None] Let_def)
  next
    case (Some n)
    show ?thesis
    proof (cases n)
      case Directory
      with Some have d: "fs w csr_path = Some Directory" by simp
      show ?thesis
        using False d
        by (simp add: on_certificate_available_csr_directory [OF assms d] Let_def)
    next
      case (File c)
      with Some have f: "fs w csr_path = Some (File c)" by simp
      with False have ne: "certificate_signing_request ev \<noteq> c" by auto
      show ?thesis
        using False
        by (simp add: on_certificate_available_mismatch [OF assms f ne] Let_def)
    qed
  qed
qed

theorem certificate_stored_iff_csr_matches_witness:
  "can_connect w_pending \<and>
   (fs w_pending csr_path = Some (File (certificate_signing_request
       (CertificateAvailableEvent ''CERT'' ''CSR ausf.sdcore''))) \<and>
    fs (snd (on_certificate_available env0
         (CertificateAvailableEvent ''CERT'' ''CSR ausf.sdcore'') w_pending)) certificate_path =
      Some (File (certificate (CertificateAvailableEvent ''CERT'' ''CSR ausf.sdcore'')))) \<and>
   (fs w_pending csr_path \<noteq> Some (File (certificate_signing_request
       (CertificateAvailableEvent ''CERT'' ''CSR other''))) \<and>
    fs (snd (on_certificate_available env0
         (CertificateAvailableEvent ''CERT'' ''CSR other'') w_pending)) = fs w_pending \<and>
    Defer \<notin> set (actions_since w_pending (snd (on_certificate_available env0
         (CertificateAvailableEvent ''CERT'' ''CSR other'') w_pending))))"
  using certificate_stored_iff_csr_matches [OF pending_facts(1), of env0
      "CertificateAvailableEvent ''CERT'' ''CSR ausf.sdcore''"]
    certificate_stored_iff_csr_matches [OF pending_facts(1), of env0
      "CertificateAvailableEvent ''CERT'' ''CSR other''"]
    pending_facts
  unfolding Let_def by blast

section \<open>Order of the readiness checks\<close>

text \<open>
  Claim C3. \<open>_configure_ausf\<close> asks its five readiness questions in the order
  container reachable, NRF relation present, NRF data available, storage attached, pod
  address available, and stops asking at the first that fails: the read-only calls of a pass
  that stops at the gate are exactly the checks up to and including the failing one, and a
  pass whose first four checks hold starts with the five checks in that order. In
  particular, with the container unreachable the only call that reads anything is
  \<open>can_connect\<close>, whatever the state of the relation; the unit waits and the event is
  deferred.
\<close>

theorem gate_order_short_circuit:
  "let w' = snd (configure_ausf env w);
       queries = filter is_query (actions_since w w')
   in (\<not> can_connect w \<longrightarrow>
         queries = [Can_connect] \<and> fst (configure_ausf env w) = Inr () \<and>
         unit_status w' = WaitingStatus ''Waiting for container to start'' \<and>
         Defer \<in> set (actions_since w w')) \<and>
      (can_connect w \<and> relations w ''fiveg_nrf'' = None \<longrightarrow>
         queries = [Can_connect, Get_relation ''fiveg_nrf'']) \<and>
      (can_connect w \<and> relations w ''fiveg_nrf'' \<noteq> None \<and>
       \<not> truthy (nrf_requires_nrf_url w) \<longrightarrow>
         queries = [Can_connect, Get_relation ''fiveg_nrf'', Nrf_url]) \<and>
      (can_connect w \<and> relations w ''fiveg_nrf'' \<noteq> None \<and>
       truthy (nrf_requires_nrf_url w) \<and> fs w CONFIG_DIR = None \<longrightarrow>
         queries = [Can_connect, Get_relation ''fiveg_nrf'', Nrf_url, Exists CONFIG_DIR]) \<and>
      (can_connect w \<and> relations w ''fiveg_nrf'' \<noteq> None \<and>
       truthy (nrf_requires_nrf_url w) \<and> fs w CONFIG_DIR \<noteq> None \<and>
       fst (get_pod_ip env w) = Inr ip \<and> \<not> truthy ip \<longrightarrow>
         queries = [Can_connect, Get_relation ''fiveg_nrf'', Nrf_url, Exists CONFIG_DIR,
                    Unit_get]) \<and>
      (can_connect w \<and> relations w ''fiveg_nrf'' \<noteq> None \<and>
       truthy (nrf_requires_nrf_url w) \<and> fs w CONFIG_DIR \<noteq> None \<longrightarrow>
         take 5 queries = [Can_connect, Get_relation ''fiveg_nrf'', Nrf_url,
                    Exists CONFIG_DIR, Unit_get])"
  unfolding Let_def
proof (intro conjI impI)
  assume "\<not> can_connect w"
  note r = configure_ausf_unreachable [OF this]
  show "filter is_query (actions_since w (snd (configure_ausf env w))) = [Can_connect]"
    and "fst (configure_ausf env w) = Inr ()"
    and "unit_status (snd (configure_ausf env w)) =
           WaitingStatus ''Waiting for container to start''"
    and "Defer \<in> set (actions_since w (snd (configure_ausf env w)))"
    by (simp_all add: r)
next
  assume "can_connect w \<and> relations w ''fiveg_nrf'' = None"
  then show "filter is_query (actions_since w (snd (configure_ausf env w))) =
      [Can_connect, Get_relation ''fiveg_nrf'']"
    by (simp add: configure_ausf_no_relation)
next
  assume "can_connect w \<and> relations w ''fiveg_nrf'' \<noteq> None \<and>
       \<not> truthy (nrf_requires_nrf_url w)"
  then show "filter is_query (actions_since w (snd (configure_ausf env w))) =
      [Can_connect, Get_relation ''fiveg_nrf'', Nrf_url]"
    by (simp del: not_None_eq add: configure_ausf_no_nrf_data)
next
  assume "can_connect w \<and> relations w ''fiveg_nrf'' \<noteq> None \<and>
       truthy (nrf_requires_nrf_url w) \<and> fs w CONFIG_DIR = None"
  then show "filter is_query (actions_since w (snd (configure_ausf env w))) =
      [Can_connect, Get_relation ''fiveg_nrf'', Nrf_url, Exists CONFIG_DIR]"
    by (simp del: not_None_eq add: configure_ausf_no_storage)
next
  assume a: "can_connect w \<and> relations w ''fiveg_nrf'' \<noteq> None \<and>
       truthy (nrf_requires_nrf_url w) \<and> fs w CONFIG_DIR \<noteq> None \<and>
       fst (get_pod_ip env w) = Inr ip \<and> \<not> truthy ip"
  then have "configure_ausf env w =
     (Inr (), w\<lparr>unit_status := WaitingStatus ''Waiting for pod IP address to be available'',
        trace := trace w @ [Can_connect, Get_relation ''fiveg_nrf'', Nrf_url,
          Exists CONFIG_DIR, Unit_get,
          Set_status (WaitingStatus ''Waiting for pod IP address to be available''),
          Defer]\<rparr>)"
    by (intro configure_ausf_no_pod_ip) blast+
  then show "filter is_query (actions_since w (snd (configure_ausf env w))) =
      [Can_connect, Get_relation ''fiveg_nrf'', Nrf_url, Exists CONFIG_DIR, Unit_get]"
    by simp
next
  assume "can_connect w \<and> relations w ''fiveg_nrf'' \<noteq> None \<and>
       truthy (nrf_requires_nrf_url w) \<and> fs w CONFIG_DIR \<noteq> None"
  then show "take 5 (filter is_query (actions_since w (snd (configure_ausf env w)))) =
    [Can_connect, Get_relation ''fiveg_nrf'', Nrf_url, Exists CONFIG_DIR, Unit_get]"
    by (intro configure_ausf_first_queries) blast+
qed

theorem gate_order_short_circuit_witness:
  "(\<not> can_connect w_down \<and> relations w_down ''fiveg_nrf'' = None \<and>
    filter is_query (actions_since w_down (snd (configure_ausf env0 w_down))) =
      [Can_connect] \<and>
    Defer \<in> set (actions_since w_down (snd (configure_ausf env0 w_down)))) \<and>
   (can_connect w_no_relation \<and> relations w_no_relation ''fiveg_nrf'' = None \<and>
    filter is_query (actions_since w_no_relation (snd (configure_ausf env0 w_no_relation))) =
      [Can_connect, Get_relation ''fiveg_nrf'']) \<and>
   (can_connect w_no_nrf_data \<and> relations w_no_nrf_data ''fiveg_nrf'' \<noteq> None \<and>
    \<not> truthy (nrf_requires_nrf_url w_no_nrf_data) \<and>
    filter is_query (actions_since w_no_nrf_data (snd (configure_ausf env0 w_no_nrf_data))) =
      [Can_connect, Get_relation ''fiveg_nrf'', Nrf_url]) \<and>
   (can_connect w_no_storage \<and> relations w_no_storage ''fiveg_nrf'' \<noteq> None \<and>
    truthy (nrf_requires_nrf_url w_no_storage) \<and> fs w_no_storage CONFIG_DIR = None \<and>
    filter is_query (actions_since w_no_storage (snd (configure_ausf env0 w_no_storage))) =
      [Can_connect, Get_relation ''fiveg_nrf'', Nrf_url, Exists CONFIG_DIR]) \<and>
   (can_connect w_no_pod_ip \<and> relations w_no_pod_ip ''fiveg_nrf'' \<noteq> None \<and>
    truthy (nrf_requires_nrf_url w_no_pod_ip) \<and> fs w_no_pod_ip CONFIG_DIR \<noteq> None \<and>
    fst (get_pod_ip env0 w_no_pod_ip) = Inr None \<and> \<not> truthy None \<and>
    filter is_query (actions_since w_no_pod_ip (snd (configure_ausf env0 w_no_pod_ip))) =
      [Can_connect, Get_relation ''fiveg_nrf'', Nrf_url, Exists CONFIG_DIR, Unit_get]) \<and>
   (can_connect w_fresh \<and> relations w_fresh ''fiveg_nrf'' \<noteq> None \<and>
    truthy (nrf_requires_nrf_url w_fresh) \<and> fs w_fresh CONFIG_DIR \<noteq> None \<and>
    take 5 (filter is_query (actions_since w_fresh (snd (configure_ausf env0 w_fresh)))) =
      [Can_connect, Get_relation ''fiveg_nrf'', Nrf_url, Exists CONFIG_DIR, Unit_get])"
  using gate_order_short_circuit [of env0 w_down]
    gate_order_short_circuit [of env0 w_no_relation]
    gate_order_short_circuit [of env0 w_no_nrf_data]
    gate_order_short_circuit [of env0 w_no_storage]
    gate_order_short_circuit [of env0 w_no_pod_ip None]
    gate_order_short_circuit [of env0 w_fresh]
    gate_worlds fresh_ready(1-4)
  by (simp del: not_None_eq add: Let_def)

section \<open>Deferring and blocking\<close>

text \<open>
  Claim C4. When the first failing precondition is a transient one (container
  unreachable, NRF data not available, storage not attached, pod address not available),
  \<open>_configure_ausf\<close> sets a waiting status and defers the event; when it is the
  missing NRF relation, it sets a blocked status and does not defer. In each case the pass
  returns there: apart from the status and the trace the world is unchanged, and the
  trace holds the checks, the status and the deferral only, so that no file is written,
  no layer added and no service restarted.
\<close>

theorem gate_failure_defers_or_blocks:
  "(\<not> can_connect w \<longrightarrow>
      configure_ausf env w =
        (Inr (), w\<lparr>unit_status := WaitingStatus ''Waiting for container to start'',
           trace := trace w @ [Can_connect,
             Set_status (WaitingStatus ''Waiting for container to start''), Defer]\<rparr>)) \<and>
   (can_connect w \<and> relations w ''fiveg_nrf'' = None \<longrightarrow>
      configure_ausf env w =
        (Inr (), w\<lparr>unit_status := BlockedStatus ''Waiting for fiveg_nrf relation'',
           trace := trace w @ [Can_connect, Get_relation ''fiveg_nrf'',
             Set_status (BlockedStatus ''Waiting for fiveg_nrf relation'')]\<rparr>)) \<and>
   (can_connect w \<and> relations w ''fiveg_nrf'' \<noteq> None \<and>
    \<not> truthy (nrf_requires_nrf_url w) \<longrightarrow>
      configure_ausf env w =
        (Inr (), w\<lparr>unit_status := WaitingStatus ''Waiting for NRF data to be available'',
           trace := trace w @ [Can_connect, Get_relation ''fiveg_nrf'', Nrf_url,
             Set_status (WaitingStatus ''Waiting for NRF data to be available''),
             Defer]\<rparr>)) \<and>
   (can_connect w \<and> relations w ''fiveg_nrf'' \<noteq> None \<and>
    truthy (nrf_requires_nrf_url w) \<and> fs w CONFIG_DIR = None \<longrightarrow>
      configure_ausf env w =
        (Inr (), w\<lparr>unit_status := WaitingStatus ''Waiting for storage to be attached'',
           trace := trace w @ [Can_connect, Get_relation ''fiveg_nrf'', Nrf_url,
             Exists CONFIG_DIR,
             Set_status (WaitingStatus ''Waiting for storage to be attached''), Defer]\<rparr>)) \<and>
   (can_connect w \<and> relations w ''fiveg_nrf'' \<noteq> None \<and>
    truthy (nrf_requires_nrf_url w) \<and> fs w CONFIG_DIR \<noteq> None \<and>
    fst (get_pod_ip env w) = Inr ip \<and> \<not> truthy ip \<longrightarrow>
      configure_ausf env w =
        (Inr (), w\<lparr>unit_status :=
             WaitingStatus ''Waiting for pod IP address to be available'',
           trace := trace w @ [Can_connect, Get_relation ''fiveg_nrf'', Nrf_url,
             Exists CONFIG_DIR, Unit_get,
             Set_status (WaitingStatus ''Waiting for pod IP address to be available''),
             Defer]\<rparr>))"
  using configure_ausf_unreachable [of w env] configure_ausf_no_relation [of w env]
    configure_ausf_no_nrf_data [of w env] configure_ausf_no_storage [of w env]
    configure_ausf_no_pod_ip [of w env ip]
  by blast

theorem gate_failure_defers_or_blocks_witness:
  "(\<not> can_connect w_down \<and>
    unit_status (snd (configure_ausf env0 w_down)) =
      WaitingStatus ''Waiting for container to start'' \<and>
    Defer \<in> set (actions_since w_down (snd (configure_ausf env0 w_down))) \<and>
    filter is_write (actions_since w_down (snd (configure_ausf env0 w_down))) = []) \<and>
   (can_connect w_no_relation \<and> relations w_no_relation ''fiveg_nrf'' = None \<and>
    unit_status (snd (configure_ausf env0 w_no_relation)) =
      BlockedStatus ''Waiting for fiveg_nrf relation'' \<and>
    Defer \<notin> set (actions_since w_no_relation (snd (configure_ausf env0 w_no_relation))) \<and>
    filter is_write (actions_since w_no_relation (snd (configure_ausf env0 w_no_relation))) =
      []) \<and>
   (can_connect w_no_nrf_data \<and> relations w_no_nrf_data ''fiveg_nrf'' \<noteq> None \<and>
    \<not> truthy (nrf_requires_nrf_url w_no_nrf_data) \<and>
    unit_status (snd (configure_ausf env0 w_no_nrf_data)) =
      WaitingStatus ''Waiting for NRF data to be available'' \<and>
    Defer \<in> set (actions_since w_no_nrf_data (snd (configure_ausf env0 w_no_nrf_data)))) \<and>
   (can_connect w_no_storage \<and> relations w_no_storage ''fiveg_nrf'' \<noteq> None \<and>
    truthy (nrf_requires_nrf_url w_no_storage) \<and> fs w_no_storage CONFIG_DIR = None \<and>
    unit_status (snd (configure_ausf env0 w_no_storage)) =
      WaitingStatus ''Waiting for storage to be attached'' \<and>
    Defer \<in> set (actions_since w_no_storage (snd (configure_ausf env0 w_no_storage)))) \<and>
   (can_connect w_no_pod_ip \<and> relations w_no_pod_ip ''fiveg_nrf'' \<noteq> None \<and>
    truthy (nrf_requires_nrf_url w_no_pod_ip) \<and> fs w_no_pod_ip CONFIG_DIR \<noteq> None \<and>
    fst (get_pod_ip env0 w_no_pod_ip) = Inr None \<and> \<not> truthy None \<and>
    unit_status (snd (configure_ausf env0 w_no_pod_ip)) =
      WaitingStatus ''Waiting for pod IP address to be available'' \<and>
    Defer \<in> set (actions_since w_no_pod_ip (snd (configure_ausf env0 w_no_pod_ip))))"
  using gate_failure_defers_or_blocks [of w_down env0]
    gate_failure_defers_or_blocks [of w_no_relation env0]
    gate_failure_defers_or_blocks [of w_no_nrf_data env0]
    gate_failure_defers_or_blocks [of w_no_storage env0]
    gate_failure_defers_or_blocks [of w_no_pod_ip env0 None]
    gate_worlds
  by (simp del: not_None_eq)

section \<open>Certificate renewal\<close>

text \<open>
  Claim C5 says that with the container reachable a certificate-expiring event for a
  certificate that is not the stored one is ignored with a debug record and without error.
  \<open>_on_certificate_expiring\<close> reads the stored certificate without checking that one
  is stored, unlike \<open>_on_certificate_available\<close>, which checks for the stored CSR
  first. On a reachable unit that holds a key and a CSR but no certificate yet, the handler
  ends with \<open>PathError\<close> after its two reads, with nothing logged.
\<close>

theorem certificate_expiring_without_certificate_raises:
  "can_connect w_pending \<and> fs w_pending certificate_path = None \<and>
   on_certificate_expiring env0 (CertificateExpiringEvent ''CERT'') w_pending =
     (Inl PathError, w_pending\<lparr>trace := [Can_connect, Pull certificate_path]\<rparr>)"
proof -
  have 1: "can_connect w_pending" and 2: "fs w_pending certificate_path = None"
    and 3: "trace w_pending = []"
    by code_simp+
  show ?thesis
    using on_certificate_expiring_no_certificate [OF 1 2, of env0] 1 2 3 by simp
qed

section \<open>Applying the layer\<close>

text \<open>
  Claim C6, as stated: every pass that reaches the service step applies the newly
  computed layer, whether or not it restarts the service. It fails on a unit in steady
  state, where the plan already holds the computed services and the configuration file
  is up to date: the pass completes, never calls \<open>add_layer\<close> and makes no
  changing call at all.
\<close>

theorem layer_applied_unconditionally_counterexample:
  "fst (configure_ausf env0 w_steady) = Inr () \<and>
   unit_status (snd (configure_ausf env0 w_steady)) = ActiveStatus \<and>
   fst (pebble_layer env0 w_steady) = Inr layer0 \<and>
   Add_layer container_name layer0 True \<notin>
     set (actions_since w_steady (snd (configure_ausf env0 w_steady))) \<and>
   filter is_write (actions_since w_steady (snd (configure_ausf env0 w_steady))) = []"
  by code_simp

text \<open>
  Claim C6, amended. \<open>_configure_ausf_service\<close> calls \<open>add_layer\<close> (with the
  container's name, the computed layer and \<open>combine=True\<close>) exactly when it restarts
  the service, that is when the plan's services differ from the layer or the
  configuration file changed; it makes no other \<open>add_layer\<close> call. Either way the
  plan after the pass is the old plan with the layer's services merged in, since without the
  call the plan already equals the layer.
\<close>

theorem layer_applied_iff_restarted:
  assumes "can_connect w" "relations w ''fiveg_nrf'' \<noteq> None"
    "truthy (nrf_requires_nrf_url w)" "fs w CONFIG_DIR \<noteq> None"
    "fst (get_pod_ip env w) = Inr ip" "truthy ip"
    "fst (pebble_layer env w) = Inr layer"
    "fst (apply_ausf_config env w) = Inr changed"
  shows "(Add_layer container_name layer True \<in>
            set (actions_since w (snd (configure_ausf env w))) \<longleftrightarrow>
          plan_services w \<noteq> layer \<or> changed) \<and>
    (Add_layer container_name layer True \<in>
            set (actions_since w (snd (configure_ausf env w))) \<longleftrightarrow>
          Restart service_name \<in> set (actions_since w (snd (configure_ausf env w)))) \<and>
    (\<forall>l c. Add_layer l layer' c \<in> set (actions_since w (snd (configure_ausf env w))) \<longrightarrow>
          l = container_name \<and> layer' = layer \<and> c) \<and>
    plan_services (snd (configure_ausf env w)) = plan_services w ++\<^sub>f layer"
  by (auto simp add: trace_configure_ausf_ready [OF assms])

theorem layer_applied_iff_restarted_witness:
  "can_connect w_steady \<and> relations w_steady ''fiveg_nrf'' \<noteq> None \<and>
   truthy (nrf_requires_nrf_url w_steady) \<and> fs w_steady CONFIG_DIR \<noteq> None \<and>
   fst (get_pod_ip env0 w_steady) = Inr (Some ''10.0.0.5'') \<and> truthy (Some ''10.0.0.5'') \<and>
   fst (pebble_layer env0 w_steady) = Inr layer0 \<and>
   fst (apply_ausf_config env0 w_steady) = Inr False \<and>
   (Add_layer container_name layer0 True \<in>
            set (actions_since w_steady (snd (configure_ausf env0 w_steady))) \<longleftrightarrow>
          plan_services w_steady \<noteq> layer0 \<or> False) \<and>
   plan_services (snd (configure_ausf env0 w_steady)) = plan_services w_steady ++\<^sub>f layer0"
  using layer_applied_iff_restarted [OF steady_ready] steady_ready by simp

section \<open>Configuration reconciliation\<close>



section \<open>Private key generation\<close>




section \<open>Teardown\<close>

text \<open>
  Claim C9. With the container reachable, \<open>_on_certificates_relation_broken\<close> leaves
  no private key, CSR or certificate behind; it calls \<open>remove_path\<close> on an artifact
  exactly when that artifact is stored, so that deleting an absent one does nothing. It then
  runs \<open>_configure_ausf\<close> on the world so obtained, which differs from the initial one
  in those three paths and in the trace only. When the preconditions of that pass hold, the
  handler returns with an active status and the configuration file holds the content
  rendered with the scheme \<open>http\<close>.
\<close>

theorem relation_broken_deletes_and_reconfigures:
  assumes "can_connect w"
  shows "let w' = snd (on_certificates_relation_broken env w); acts = actions_since w w'
    in fs w' private_key_path = None \<and> fs w' csr_path = None \<and>
       fs w' certificate_path = None \<and>
       (Remove_path private_key_path \<in> set acts \<longleftrightarrow> fs w private_key_path \<noteq> None) \<and>
       (Remove_path csr_path \<in> set acts \<longleftrightarrow> fs w csr_path \<noteq> None) \<and>
       (Remove_path certificate_path \<in> set acts \<longleftrightarrow> fs w certificate_path \<noteq> None) \<and>
       (\<exists>w1. on_certificates_relation_broken env w = configure_ausf env w1 \<and>
          fs w1 = (fs w)(private_key_path := None, csr_path := None,
                         certificate_path := None) \<and>
          w1\<lparr>fs := fs w, trace := trace w\<rparr> = w) \<and>
       (relations w ''fiveg_nrf'' \<noteq> None \<and> truthy (nrf_requires_nrf_url w) \<and>
        fs w CONFIG_DIR \<noteq> None \<and> fst (get_pod_ip env w) = Inr ip \<and> truthy ip \<longrightarrow>
          fst (on_certificates_relation_broken env w) = Inr () \<and>
          unit_status w' = ActiveStatus \<and>
          fs w' config_file_path =
            Some (File (render_config_file env AUSF_GROUP_ID ip SBI_PORT
                          (nrf_requires_nrf_url w) ''http'')))"
proof -
  define dels where "dels = [Can_connect] @
            Exists private_key_path #
            (if fs w private_key_path \<noteq> None
             then [Remove_path private_key_path,
                   Log Info ''Removed private key from workload'']
             else []) @
            Exists csr_path #
            (if fs w csr_path \<noteq> None
             then [Remove_path csr_path, Log Info ''Removed CSR from workload'']
             else []) @
            Exists certificate_path #
            (if fs w certificate_path \<noteq> None
             then [Remove_path certificate_path,
                   Log Info ''Removed certificate from workload'']
             else [])"
  define w1 where "w1 = w\<lparr>fs := (fs w)(private_key_path := None, csr_path := None,
                        certificate_path := None),
              trace := trace w @ dels\<rparr>"
  define w' where "w' = snd (configure_ausf env w1)"
  have run: "on_certificates_relation_broken env w = configure_ausf env w1"
    unfolding w1_def dels_def by (rule on_certificates_relation_broken_run [OF assms])
  obtain acts where a: "trace w' = trace w1 @ acts" "\<forall>p. Remove_path p \<notin> set acts"
    unfolding w'_def using configure_ausf_frame(1) [of env w1] by blast
  have "trace w' = (trace w @ dels) @ acts"
    using a(1) by (simp add: w1_def)
  then have since: "actions_since w w' = dels @ acts"
    by (rule actions_since_extended)
  have gone: "fs w' private_key_path = None" "fs w' csr_path = None"
    "fs w' certificate_path = None"
    unfolding w'_def by (simp_all add: configure_ausf_frame w1_def paths_distinct)
  have removed:
    "Remove_path private_key_path \<in> set (actions_since w w') \<longleftrightarrow>
       fs w private_key_path \<noteq> None"
    "Remove_path csr_path \<in> set (actions_since w w') \<longleftrightarrow> fs w csr_path \<noteq> None"
    "Remove_path certificate_path \<in> set (actions_since w w') \<longleftrightarrow>
       fs w certificate_path \<noteq> None"
    using a(2) by (simp_all del: not_None_eq add: since dels_def paths_distinct)
  have pass: "\<exists>w1. on_certificates_relation_broken env w = configure_ausf env w1 \<and>
      fs w1 = (fs w)(private_key_path := None, csr_path := None, certificate_path := None) \<and>
      w1\<lparr>fs := fs w, trace := trace w\<rparr> = w"
    by (rule exI [of _ w1]) (simp add: run, simp add: w1_def)
  have ready: "fst (configure_ausf env w1) = Inr () \<and> unit_status w' = ActiveStatus \<and>
      fs w' config_file_path =
        Some (File (render_config_file env AUSF_GROUP_ID ip SBI_PORT
                      (nrf_requires_nrf_url w) ''http''))"
    if g: "relations w ''fiveg_nrf'' \<noteq> None" "truthy (nrf_requires_nrf_url w)"
      "fs w CONFIG_DIR \<noteq> None" "fst (get_pod_ip env w) = Inr ip" "truthy ip"
  proof -
    have 1: "can_connect w1" using assms by (simp add: w1_def)
    have 2: "relations w1 ''fiveg_nrf'' \<noteq> None" using g(1) by (simp add: w1_def)
    have 3: "truthy (nrf_requires_nrf_url w1)" using g(2) by (simp add: w1_def)
    have 4: "fs w1 CONFIG_DIR \<noteq> None" using g(3) by (simp add: w1_def paths_distinct)
    have 5: "fst (get_pod_ip env w1) = Inr ip"
      by (simp add: get_pod_ip_eq [OF g(4)] w1_def)
    have 6: "fs w1 certificate_path = None" "nrf_requires_nrf_url w1 = nrf_requires_nrf_url w"
      by (simp_all add: w1_def)
    show ?thesis
      using configure_ausf_ready_file [OF 1 2 3 4 5 g(5)] by (simp add: 6 w'_def)
  qed
  show ?thesis
    unfolding Let_def run w'_def [symmetric]
    using gone removed pass [unfolded run] ready by blast
qed

theorem relation_broken_deletes_and_reconfigures_witness:
  "can_connect w_certified \<and> relations w_certified ''fiveg_nrf'' \<noteq> None \<and>
   truthy (nrf_requires_nrf_url w_certified) \<and> fs w_certified CONFIG_DIR \<noteq> None \<and>
   fst (get_pod_ip env0 w_certified) = Inr (Some ''10.0.0.5'') \<and>
   truthy (Some ''10.0.0.5'') \<and>
   fs w_certified certificate_path \<noteq> None \<and>
   fs w_certified config_file_path = Some (File ''https 10.0.0.5 http://nrf:29510'') \<and>
   fs (snd (on_certificates_relation_broken env0 w_certified)) certificate_path = None \<and>
   Remove_path certificate_path \<in>
     set (actions_since w_certified (snd (on_certificates_relation_broken env0 w_certified))) \<and>
   fs (snd (on_certificates_relation_broken env0 w_certified)) config_file_path =
     Some (File ''http 10.0.0.5 http://nrf:29510'')"
  using relation_broken_deletes_and_reconfigures [OF certified_facts(1), of env0
      "Some ''10.0.0.5''"]
    certified_facts
  unfolding Let_def by (simp del: not_None_eq)

section \<open>The stored CSR and the requested one\<close>

text \<open>
  Claim C10. \<open>_request_new_certificate\<close> hands the generated CSR bytes unchanged to
  \<open>request_certificate_creation\<close> and stores their decoding with leading and
  trailing whitespace stripped. So when the decoded CSR begins or ends with whitespace, the
  CSR read back by \<open>_get_stored_csr\<close> differs from the decoded request, and
  \<open>_on_certificate_available\<close>, given an event whose CSR field is the decoded request
  as sent, on any reachable unit storing that CSR, returns without touching a file or
  writing anything: the certificate is not stored.
\<close>

theorem stripped_csr_rejects_echoed_request:
  assumes "fs w private_key_path = Some (File k)"
    and "csr = tls_generate_csr env (encode env k) CERTIFICATE_COMMON_NAME
           [CERTIFICATE_COMMON_NAME]"
    and "decode env csr = Some t"
    and "t \<noteq> []" and "isspace (hd t) \<or> isspace (last t)"
  shows "let w1 = snd (request_new_certificate env w)
    in fst (request_new_certificate env w) = Inr () \<and>
       Request_certificate_creation csr \<in> set (actions_since w w1) \<and>
       Push csr_path (strip t) False \<in> set (actions_since w w1) \<and>
       fs w1 csr_path = Some (File (strip t)) \<and>
       fst (get_stored_csr w1) = Inr (strip t) \<and>
       strip t \<noteq> t \<and>
       (\<forall>v ev. can_connect v \<and> fs v csr_path = fs w1 csr_path \<and>
               certificate_signing_request ev = t \<longrightarrow>
          fst (on_certificate_available env ev v) = Inr () \<and>
          fs (snd (on_certificate_available env ev v)) = fs v \<and>
          filter is_write (actions_since v (snd (on_certificate_available env ev v))) = [])"
proof -
  note run = request_new_certificate_run [OF assms(1-3)]
  have ne: "strip t \<noteq> t" by (rule strip_changes [OF assms(4,5)])
  have ignored: "fst (on_certificate_available env ev v) = Inr () \<and>
      fs (snd (on_certificate_available env ev v)) = fs v \<and>
      filter is_write (actions_since v (snd (on_certificate_available env ev v))) = []"
    if "can_connect v" "fs v csr_path = Some (File (strip t))"
      "certificate_signing_request ev = t" for v ev
  proof -
    have "certificate_signing_request ev \<noteq> strip t" using that(3) ne by simp
    from on_certificate_available_mismatch [OF that(1,2) this, of env]
    show ?thesis by simp
  qed
  show ?thesis
    unfolding Let_def
    using ne ignored
    by (simp add: run get_stored_csr_def container_pull_run)
qed

theorem stripped_csr_rejects_echoed_request_witness:
  "fs w_keyed private_key_path = Some (File ''OLD KEY'') \<and>
   ''CSR ausf.sdcore'' @ [CHR 0x0A] =
     tls_generate_csr env0 (encode env0 ''OLD KEY'') CERTIFICATE_COMMON_NAME
       [CERTIFICATE_COMMON_NAME] \<and>
   decode env0 (''CSR ausf.sdcore'' @ [CHR 0x0A]) =
     Some (''CSR ausf.sdcore'' @ [CHR 0x0A]) \<and>
   ''CSR ausf.sdcore'' @ [CHR 0x0A] \<noteq> [] \<and>
   (isspace (hd (''CSR ausf.sdcore'' @ [CHR 0x0A])) \<or>
    isspace (last (''CSR ausf.sdcore'' @ [CHR 0x0A]))) \<and>
   Request_certificate_creation (''CSR ausf.sdcore'' @ [CHR 0x0A]) \<in>
     set (actions_since w_keyed (snd (request_new_certificate env0 w_keyed))) \<and>
   fs (snd (request_new_certificate env0 w_keyed)) csr_path =
     Some (File ''CSR ausf.sdcore'') \<and>
   can_connect (snd (request_new_certificate env0 w_keyed)) \<and>
   fs (snd (on_certificate_available env0
        (CertificateAvailableEvent ''CERT'' (''CSR ausf.sdcore'' @ [CHR 0x0A]))
        (snd (request_new_certificate env0 w_keyed)))) =
     fs (snd (request_new_certificate env0 w_keyed))"
  using stripped_csr_rejects_echoed_request [OF keyed_request_facts(1-5)]
    keyed_request_facts
  unfolding Let_def by (simp del: not_None_eq)

end
